theory Spec2Isabelle
  imports Complex_Main
begin

section \<open>JavaScript strings and arrays\<close>

text \<open>
  The genetics engine is a JavaScript module (\<^verbatim>\<open>geneticsEngine.js\<close>). Its strings are
  modelled as \<^typ>\<open>string\<close>, its arrays as lists, and the string methods it calls are the
  functions of this section. Letter case is the ASCII one.
\<close>

definition lower_char :: "char \<Rightarrow> char" where
  "lower_char c =
     (case map_of (zip ''ABCDEFGHIJKLMNOPQRSTUVWXYZ'' ''abcdefghijklmnopqrstuvwxyz'') c of
        Some d \<Rightarrow> d
      | None \<Rightarrow> c)"

definition upper_char :: "char \<Rightarrow> char" where
  "upper_char c =
     (case map_of (zip ''abcdefghijklmnopqrstuvwxyz'' ''ABCDEFGHIJKLMNOPQRSTUVWXYZ'') c of
        Some d \<Rightarrow> d
      | None \<Rightarrow> c)"

definition toLowerCase :: "string \<Rightarrow> string" where
  "toLowerCase s = map lower_char s"

text \<open>\<^verbatim>\<open>s.startsWith(p)\<close>, \<^verbatim>\<open>s.endsWith(p)\<close> and \<^verbatim>\<open>s.includes(p)\<close>.\<close>

fun startsWith :: "string \<Rightarrow> string \<Rightarrow> bool" where
  "startsWith s [] = True"
| "startsWith [] (p # ps) = False"
| "startsWith (c # cs) (p # ps) = (c = p \<and> startsWith cs ps)"

definition endsWith :: "string \<Rightarrow> string \<Rightarrow> bool" where
  "endsWith s p = startsWith (rev s) (rev p)"

fun str_includes :: "string \<Rightarrow> string \<Rightarrow> bool" where
  "str_includes [] p = (p = [])"
| "str_includes (c # cs) p = (startsWith (c # cs) p \<or> str_includes cs p)"

text \<open>\<^verbatim>\<open>s.split(sep)\<close> for a separator of one character: the empty string splits into one
  empty piece.\<close>

fun str_split :: "char \<Rightarrow> string \<Rightarrow> string list" where
  "str_split sep [] = [[]]"
| "str_split sep (c # cs) =
     (if c = sep then [] # str_split sep cs
      else (case str_split sep cs of
              [] \<Rightarrow> [[c]]
            | p # ps \<Rightarrow> (c # p) # ps))"

text \<open>\<^verbatim>\<open>parts.join(sep)\<close>.\<close>

fun str_join :: "string \<Rightarrow> string list \<Rightarrow> string" where
  "str_join sep [] = []"
| "str_join sep [p] = p"
| "str_join sep (p # q # ps) = p @ sep @ str_join sep (q # ps)"

definition is_space :: "char \<Rightarrow> bool" where
  "is_space c = (c \<in> set [CHR '' '', CHR 0x09, CHR 0x0A, CHR 0x0B, CHR 0x0C, CHR 0x0D])"

definition str_trim :: "string \<Rightarrow> string" where
  "str_trim s = rev (dropWhile is_space (rev (dropWhile is_space s)))"

text \<open>\<^verbatim>\<open>s.replace(/\s+/g, ' ')\<close>: every run of white space becomes one blank.\<close>

fun collapse_ws :: "string \<Rightarrow> string" where
  "collapse_ws [] = []"
| "collapse_ws (c # cs) =
     (if is_space c then
        (case cs of
           [] \<Rightarrow> '' ''
         | d # _ \<Rightarrow> if is_space d then collapse_ws cs else CHR '' '' # collapse_ws cs)
      else c # collapse_ws cs)"

text \<open>\<^verbatim>\<open>s.replace(/  +/g, ' ')\<close>: every run of two or more blanks becomes one blank.\<close>

fun collapse_blanks :: "string \<Rightarrow> string" where
  "collapse_blanks [] = []"
| "collapse_blanks (c # cs) =
     (if c = CHR '' '' then
        (case cs of
           [] \<Rightarrow> '' ''
         | d # _ \<Rightarrow> if d = CHR '' '' then collapse_blanks cs else CHR '' '' # collapse_blanks cs)
      else c # collapse_blanks cs)"

text \<open>\<^verbatim>\<open>s.replace(pat, rep)\<close> with a string pattern: the first occurrence only.\<close>

fun replace_first :: "string \<Rightarrow> string \<Rightarrow> string \<Rightarrow> string" where
  "replace_first pat rep [] = (if pat = [] then rep else [])"
| "replace_first pat rep (c # cs) =
     (if startsWith (c # cs) pat then rep @ drop (length pat) (c # cs)
      else c # replace_first pat rep cs)"

text \<open>\<^verbatim>\<open>s.replace(/pat/i, rep)\<close> for a pattern of plain letters and blanks: the first
  occurrence, letter case ignored.\<close>

definition startsWith_ci :: "string \<Rightarrow> string \<Rightarrow> bool" where
  "startsWith_ci s pat = startsWith (toLowerCase s) (toLowerCase pat)"

fun replace_first_ci :: "string \<Rightarrow> string \<Rightarrow> string \<Rightarrow> string" where
  "replace_first_ci pat rep [] = (if pat = [] then rep else [])"
| "replace_first_ci pat rep (c # cs) =
     (if startsWith_ci (c # cs) pat then rep @ drop (length pat) (c # cs)
      else c # replace_first_ci pat rep cs)"

text \<open>\<^verbatim>\<open>s.replace(/pat/gi, rep)\<close> for a non-empty pattern of plain letters and blanks: every
  occurrence from left to right, without overlap.\<close>

function replace_all_ci :: "string \<Rightarrow> string \<Rightarrow> string \<Rightarrow> string" where
  "replace_all_ci pat rep [] = []"
| "replace_all_ci pat rep (c # cs) =
     (if pat \<noteq> [] \<and> startsWith_ci (c # cs) pat
      then rep @ replace_all_ci pat rep (drop (length pat) (c # cs))
      else c # replace_all_ci pat rep cs)"
  by pat_completeness auto

termination
  by (relation "measure (\<lambda>(pat, rep, s). length s)") (auto simp: neq_Nil_conv)

text \<open>The source's own helper \<^verbatim>\<open>capitalizeFirstLetter\<close>:
  \<^verbatim>\<open>string.charAt(0).toUpperCase() + string.slice(1)\<close>.\<close>

definition capitalizeFirstLetter :: "string \<Rightarrow> string" where
  "capitalizeFirstLetter s = (case s of [] \<Rightarrow> [] | c # cs \<Rightarrow> upper_char c # cs)"

text \<open>\<^verbatim>\<open>xs.findIndex(p)\<close>, with \<open>None\<close> for \<open>-1\<close>.\<close>

fun findIndex :: "('a \<Rightarrow> bool) \<Rightarrow> 'a list \<Rightarrow> nat option" where
  "findIndex p [] = None"
| "findIndex p (x # xs) = (if p x then Some 0 else map_option Suc (findIndex p xs))"

section \<open>Objects, random numbers and the console\<close>

text \<open>
  A JavaScript object is the association list of its own properties in the order in which
  \<^verbatim>\<open>Object.keys\<close> and \<^verbatim>\<open>for ... in\<close> enumerate them. A property is read by
  \<^const>\<open>map_of\<close>, and \<open>None\<close> is \<^verbatim>\<open>undefined\<close>.

  A number of a breed profile is a JSON number, modelled as a real; \<open>None\<close> stands for a
  value that is not a number (JSON \<^verbatim>\<open>null\<close>).
\<close>

type_synonym 'v object = "(string \<times> 'v) list"

type_synonym weights = "real option object"

text \<open>\<^verbatim>\<open>obj[k] = v\<close>: an existing property keeps its place, a new one comes last;
  \<open>del_prop\<close> removes a property.\<close>

fun set_prop :: "string \<Rightarrow> 'v \<Rightarrow> 'v object \<Rightarrow> 'v object" where
  "set_prop k v [] = [(k, v)]"
| "set_prop k v ((k', v') # rest) =
     (if k' = k then (k, v) # rest else (k', v') # set_prop k v rest)"

definition del_prop :: "string \<Rightarrow> 'v object \<Rightarrow> 'v object" where
  "del_prop k obj = filter (\<lambda>(k', v'). k' \<noteq> k) obj"

text \<open>
  The order of enumeration is not always the order of declaration: JavaScript enumerates
  first the keys that are array indices (the decimal numerals of the integers from 0 to
  4294967294, without a leading zero), in ascending numeric order, and then the other
  keys in the order in which they were created. \<open>object_literal\<close> is the object that a
  literal \<^verbatim>\<open>{k1: v1, k2: v2, ...}\<close> denotes, given the properties as the literal declares
  them. For the keys the engine uses (allele pairs such as \<^verbatim>\<open>'E/e'\<close>, locus, shade and
  marking names) the two orders agree.
\<close>

definition is_digit :: "char \<Rightarrow> bool" where
  "is_digit c = (c \<in> set ''0123456789'')"

definition numeral_value :: "string \<Rightarrow> nat" where
  "numeral_value s = fold (\<lambda>c n. 10 * n + (of_char c - of_char CHR ''0'')) s 0"

definition is_array_index :: "string \<Rightarrow> bool" where
  "is_array_index k =
     (k \<noteq> [] \<and> list_all is_digit k \<and> (k = ''0'' \<or> hd k \<noteq> CHR ''0'') \<and>
      numeral_value k < 2 ^ 32 - 1)"

definition object_literal :: "(string \<times> 'v) list \<Rightarrow> 'v object" where
  "object_literal props =
     (let own = fold (\<lambda>(k, v). set_prop k v) props []
      in sort_key (\<lambda>(k, v). numeral_value k) (filter (\<lambda>(k, v). is_array_index k) own) @
         filter (\<lambda>(k, v). \<not> is_array_index k) own)"

text \<open>
  \<^verbatim>\<open>Math.random()\<close> is the only source of randomness; it returns a number that is at
  least 0 and less than 1 (the type \<open>draw\<close>). The sequence of numbers it is going to
  return is a parameter \<open>rnd\<close> of every function that draws, and the state counts the
  draws made so far. The state also holds what the engine wrote with \<^verbatim>\<open>console.error\<close>
  and \<^verbatim>\<open>console.warn\<close>, oldest first; the \<^verbatim>\<open>console.log\<close> traces are not modelled.
\<close>

typedef draw = "{r :: real. 0 \<le> r \<and> r < 1}"
  morphisms draw_value draw_of
  by (rule exI [of _ 0]) simp

type_synonym random_source = "nat \<Rightarrow> draw"

text \<open>
  One constructor for each \<^verbatim>\<open>console.error\<close> and \<^verbatim>\<open>console.warn\<close> of the module, with the
  names the message interpolates: invalid or empty \<^verbatim>\<open>weightedItems\<close>; breed profile undefined
  or null; disallowed allele pair (pair, gene); no allele for a gene; \<^verbatim>\<open>allele_weights\<close>
  not found; invalid prevalence of a modifier; \<^verbatim>\<open>boolean_modifiers_prevalence\<close> not found;
  unhandled champagne interaction; missing sire, dam or foal breed profile; no valid
  allele pair for a gene.
\<close>

datatype diagnostic =
    Error_InvalidWeightedItems
  | Error_ProfileMissing
  | Warn_DisallowedPair string string
  | Warn_NoAllele string
  | Warn_NoAlleleWeights
  | Warn_InvalidPrevalence string
  | Warn_NoPrevalence
  | Warn_UnhandledChampagne
  | Error_MissingParentOrProfile
  | Warn_NoValidPair string

record world =
  draws :: nat
  console :: "diagnostic list"

definition Math_random :: "random_source \<Rightarrow> world \<Rightarrow> real \<times> world" where
  "Math_random rnd w = (draw_value (rnd (draws w)), w\<lparr>draws := Suc (draws w)\<rparr>)"

definition signal :: "diagnostic \<Rightarrow> world \<Rightarrow> world" where
  "signal d w = w\<lparr>console := console w @ [d]\<rparr>"

section \<open>Allele selector: \<^verbatim>\<open>selectWeightedRandom\<close>\<close>

text \<open>The test \<^verbatim>\<open>typeof weightedItems[item] === 'number' && weightedItems[item] >= 0\<close>.\<close>

definition valid_weight :: "real option \<Rightarrow> bool" where
  "valid_weight v = (case v of None \<Rightarrow> False | Some x \<Rightarrow> 0 \<le> x)"

text \<open>The first loop: \<open>sumOfWeights\<close> after the entries \<open>items\<close>, starting from \<open>s\<close>.\<close>

fun sumOfWeights :: "weights \<Rightarrow> real \<Rightarrow> real" where
  "sumOfWeights [] s = s"
| "sumOfWeights ((item, v) # rest) s =
     sumOfWeights rest (if valid_weight v then s + the v else s)"

text \<open>The second loop: the entry at which \<open>randomNum\<close> falls below the weight, if any.\<close>

fun walk :: "weights \<Rightarrow> real \<Rightarrow> string option" where
  "walk [] randomNum = None"
| "walk ((item, v) # rest) randomNum =
     (if valid_weight v then
        (if randomNum < the v then Some item else walk rest (randomNum - the v))
      else walk rest randomNum)"

text \<open>The argument is \<open>None\<close> when the caller passes no object; \<open>None\<close> as result is
  \<^verbatim>\<open>null\<close>.\<close>

definition selectWeightedRandom ::
  "random_source \<Rightarrow> weights option \<Rightarrow> world \<Rightarrow> string option \<times> world" where
  "selectWeightedRandom rnd weightedItems w =
     (case weightedItems of
        None \<Rightarrow> (None, signal Error_InvalidWeightedItems w)
      | Some items \<Rightarrow>
          if length (map fst items) = 0 then (None, signal Error_InvalidWeightedItems w)
          else
            let sum = sumOfWeights items 0 in
            if sum = 0 then
              (case map fst items of [] \<Rightarrow> (None, w) | k # ks \<Rightarrow> (Some k, w))
            else
              let (r, w') = Math_random rnd w;
                  randomNum = r * sum
              in (case walk items randomNum of
                    Some item \<Rightarrow> (Some item, w')
                  | None \<Rightarrow>
                      let validItems = map fst (filter (\<lambda>(key, v). valid_weight v) items)
                      in (if length validItems > 0 then Some (last validItems) else None, w')))"

section \<open>Genotypes and breed profiles\<close>

text \<open>
  A property of a genotype object is an allele pair (a string such as \<^verbatim>\<open>'E/e'\<close>) or a
  boolean. Nothing in the engine fixes which names hold which: the generator writes a
  string under every key of \<^verbatim>\<open>allele_weights\<close> and a boolean under every key of
  \<^verbatim>\<open>boolean_modifiers_prevalence\<close>, whatever the names are.
\<close>

datatype jsval = Str string | Bool bool

text \<open>
  The record keeps the properties whose value is a string in \<open>genes\<close> and those whose
  value is a boolean in \<open>modifiers\<close>. An object holds a name once, so a name is in one
  of the two lists: writing a property removes what the object held under that name in
  the other list. \<open>prop_of g k\<close> is the read \<^verbatim>\<open>genotype[k]\<close>, with \<open>None\<close> for
  \<^verbatim>\<open>undefined\<close>.
\<close>

record genotype =
  genes :: "string object"
  modifiers :: "bool object"

definition empty_genotype :: genotype where
  "empty_genotype = \<lparr>genes = [], modifiers = []\<rparr>"

definition prop_of :: "genotype \<Rightarrow> string \<Rightarrow> jsval option" where
  "prop_of g k =
     (case map_of (genes g) k of
        Some s \<Rightarrow> Some (Str s)
      | None \<Rightarrow> map_option Bool (map_of (modifiers g) k))"

definition set_gene :: "string \<Rightarrow> string \<Rightarrow> genotype \<Rightarrow> genotype" where
  "set_gene k v g = \<lparr>genes = set_prop k v (genes g), modifiers = del_prop k (modifiers g)\<rparr>"

definition set_modifier :: "string \<Rightarrow> bool \<Rightarrow> genotype \<Rightarrow> genotype" where
  "set_modifier k b g = \<lparr>genes = del_prop k (genes g), modifiers = set_prop k b (modifiers g)\<rparr>"

text \<open>\<^verbatim>\<open>genotype[k] = v\<close> for a value of either sort.\<close>

definition set_value :: "string \<Rightarrow> jsval \<Rightarrow> genotype \<Rightarrow> genotype" where
  "set_value k v g = (case v of Str s \<Rightarrow> set_gene k s g | Bool b \<Rightarrow> set_modifier k b g)"

text \<open>The allele pair that a genotype holds under a name, if it holds one there, and
  \<^verbatim>\<open>Object.keys(genotype)\<close>: the loci before the modifiers, as the engine writes them.\<close>

definition gene_of :: "genotype \<Rightarrow> string \<Rightarrow> string option" where
  "gene_of g k = map_of (genes g) k"

definition genotype_keys :: "genotype \<Rightarrow> string list" where
  "genotype_keys g = map fst (genes g) @ map fst (modifiers g)"

text \<open>Truthiness: a string is truthy when it is there and not empty; a value of a genotype
  is truthy when it is a non-empty string or \<^verbatim>\<open>true\<close>.\<close>

definition truthy :: "string option \<Rightarrow> bool" where
  "truthy v = (case v of None \<Rightarrow> False | Some s \<Rightarrow> s \<noteq> [])"

definition truthy_val :: "jsval option \<Rightarrow> bool" where
  "truthy_val v =
     (case v of None \<Rightarrow> False | Some (Str s) \<Rightarrow> s \<noteq> [] | Some (Bool b) \<Rightarrow> b)"

text \<open>
  The breed profile is the JSON object \<^verbatim>\<open>breed_genetic_profile\<close>. A field that is absent
  (or \<^verbatim>\<open>null\<close>) is \<open>None\<close>.
\<close>

record marking_bias =
  face :: "weights option"
  leg_specific_probabilities :: "weights option"
  legs_general_probability :: "real option"
  max_legs_marked :: "real option"

record advanced_markings_bias =
  snowflake_probability_multiplier :: "real option"
  frost_probability_multiplier :: "real option"
  bloody_shoulder_probability_multiplier :: "real option"

record breed_profile =
  allele_weights :: "weights object option"
  disallowed_combinations :: "string list object option"
  allowed_alleles :: "string list object option"
  boolean_modifiers_prevalence :: "real option object option"
  shade_bias :: "weights object option"
  marking_bias :: "marking_bias option"
  advanced_markings_bias :: "advanced_markings_bias option"

section \<open>Genotype generator: \<^verbatim>\<open>generateStoreHorseGenetics\<close>\<close>

text \<open>The test
  \<^verbatim>\<open>profile.disallowed_combinations && profile.disallowed_combinations[gene] &&
  profile.disallowed_combinations[gene].includes(pair)\<close>.\<close>

definition is_disallowed :: "breed_profile \<Rightarrow> string \<Rightarrow> string \<Rightarrow> bool" where
  "is_disallowed profile geneName pair =
     (case disallowed_combinations profile of
        None \<Rightarrow> False
      | Some d \<Rightarrow> (case map_of d geneName of None \<Rightarrow> False | Some l \<Rightarrow> pair \<in> set l))"

text \<open>The body of the loop over \<^verbatim>\<open>allele_weights\<close>, for one locus.\<close>

definition gene_step ::
  "random_source \<Rightarrow> breed_profile \<Rightarrow> string \<times> weights \<Rightarrow> genotype \<times> world \<Rightarrow> genotype \<times> world" where
  "gene_step rnd profile entry acc =
     (let (geneName, weightedAlleles) = entry;
          (generatedGenotype, w) = acc;
          (chosenAllelePair, w1) = selectWeightedRandom rnd (Some weightedAlleles) w
      in if truthy chosenAllelePair then
           (if is_disallowed profile geneName (the chosenAllelePair)
            then (generatedGenotype, signal (Warn_DisallowedPair (the chosenAllelePair) geneName) w1)
            else (set_gene geneName (the chosenAllelePair) generatedGenotype, w1))
         else (generatedGenotype, signal (Warn_NoAllele geneName) w1))"

text \<open>The body of the loop over \<^verbatim>\<open>boolean_modifiers_prevalence\<close>, for one modifier.\<close>

definition modifier_step ::
  "random_source \<Rightarrow> string \<times> real option \<Rightarrow> genotype \<times> world \<Rightarrow> genotype \<times> world" where
  "modifier_step rnd entry acc =
     (let (modifierName, prevalence) = entry;
          (generatedGenotype, w) = acc
      in (case prevalence of
            Some p \<Rightarrow>
              if 0 \<le> p \<and> p \<le> 1 then
                (let (r, w1) = Math_random rnd w
                 in (set_modifier modifierName (r < p) generatedGenotype, w1))
              else (set_modifier modifierName False generatedGenotype,
                    signal (Warn_InvalidPrevalence modifierName) w)
          | None \<Rightarrow> (set_modifier modifierName False generatedGenotype,
                     signal (Warn_InvalidPrevalence modifierName) w)))"

text \<open>The profile is \<open>None\<close> when the caller passes \<^verbatim>\<open>null\<close> or \<^verbatim>\<open>undefined\<close>. The result is
  the value the returned promise resolves to.\<close>

definition generateStoreHorseGenetics ::
  "random_source \<Rightarrow> breed_profile option \<Rightarrow> world \<Rightarrow> genotype \<times> world" where
  "generateStoreHorseGenetics rnd breedGeneticProfile w =
     (case breedGeneticProfile of
        None \<Rightarrow> (empty_genotype, signal Error_ProfileMissing w)
      | Some profile \<Rightarrow>
          (let acc1 =
                 (case allele_weights profile of
                    Some aw \<Rightarrow> fold (gene_step rnd profile) aw (empty_genotype, w)
                  | None \<Rightarrow> (empty_genotype, signal Warn_NoAlleleWeights w))
           in (case boolean_modifiers_prevalence profile of
                 Some bm \<Rightarrow> fold (modifier_step rnd) bm acc1
               | None \<Rightarrow> (fst acc1, signal Warn_NoPrevalence (snd acc1)))))"

section \<open>Inheritance calculator: \<^verbatim>\<open>calculateFoalGenetics\<close>\<close>

text \<open>\<^verbatim>\<open>getParentAllele\<close>: one of the alleles of the pair, chosen by a draw; \<^verbatim>\<open>null\<close>
  (\<open>None\<close>), without a draw, for a value that is falsy, is not a string or has no
  \<^verbatim>\<open>'/'\<close>. A draw is less than 1, so the index
  \<^verbatim>\<open>Math.floor(Math.random() * alleles.length)\<close> is within the array (lemma
  \<open>draw_index_less\<close> below).\<close>

definition getParentAllele ::
  "random_source \<Rightarrow> jsval option \<Rightarrow> world \<Rightarrow> string option \<times> world" where
  "getParentAllele rnd allelePairString w =
     (case allelePairString of
        Some (Str s) \<Rightarrow>
          if s = [] \<or> \<not> str_includes s ''/'' then (None, w)
          else
            let alleles = str_split CHR ''/'' s;
                (r, w1) = Math_random rnd w
            in (Some (alleles ! nat \<lfloor>r * real (length alleles)\<rfloor>), w1)
      | _ \<Rightarrow> (None, w))"

definition recessiveLikes :: "string list" where
  "recessiveLikes =
     [''n'', ''w'', ''patn1'', ''nd1'', ''nd2'', ''lp'', ''g'', ''rn'', ''to'', ''o'', ''sb1'',
      ''mu'', ''e'', ''a'', ''ch'', ''cr'', ''z'', ''prl'', ''d'']"

definition orderPreservingGenes :: "string list" where
  "orderPreservingGenes = [''W'', ''SW'', ''EDXW'']"

definition dominantLike :: "string list" where
  "dominantLike =
     [''Ch'', ''Cr'', ''Z'', ''Prl'', ''D'', ''Mu'', ''Lp'', ''Rn'', ''To'', ''O'', ''Sb1'']"

text \<open>The loop of \<^verbatim>\<open>combineAlleles\<close> over the order-preserving prefixes; \<open>None\<close> when it
  ends without returning.\<close>

fun order_preserving :: "string list \<Rightarrow> string \<Rightarrow> string \<Rightarrow> string option" where
  "order_preserving [] allele1 allele2 = None"
| "order_preserving (prefix # rest) allele1 allele2 =
     (if startsWith allele1 prefix \<and> allele1 \<noteq> allele2 \<and> allele2 = ''w''
      then Some (allele1 @ ''/'' @ allele2)
      else if startsWith allele2 prefix \<and> allele2 \<noteq> allele1 \<and> allele1 = ''w''
      then Some (allele2 @ ''/'' @ allele1)
      else order_preserving rest allele1 allele2)"

text \<open>The order of \<^verbatim>\<open>Array.prototype.sort\<close> on strings: by character codes.\<close>

fun str_less :: "string \<Rightarrow> string \<Rightarrow> bool" where
  "str_less [] [] = False"
| "str_less [] (d # ds) = True"
| "str_less (c # cs) [] = False"
| "str_less (c # cs) (d # ds) =
     ((of_char c :: nat) < of_char d \<or> (c = d \<and> str_less cs ds))"

definition combineAlleles :: "string option \<Rightarrow> string option \<Rightarrow> string option" where
  "combineAlleles a1 a2 =
     (case (a1, a2) of
        (Some allele1, Some allele2) \<Rightarrow>
          if toLowerCase allele1 \<notin> set recessiveLikes \<and> toLowerCase allele2 \<in> set recessiveLikes
          then Some (allele1 @ ''/'' @ allele2)
          else if toLowerCase allele1 \<in> set recessiveLikes \<and> toLowerCase allele2 \<notin> set recessiveLikes
          then Some (allele2 @ ''/'' @ allele1)
          else (case order_preserving orderPreservingGenes allele1 allele2 of
                  Some pair \<Rightarrow> Some pair
                | None \<Rightarrow>
                    if allele1 \<in> set dominantLike \<and> (allele2 = ''n'' \<or> allele2 = toLowerCase allele1)
                    then Some (allele1 @ ''/'' @ allele2)
                    else if allele2 \<in> set dominantLike \<and> (allele1 = ''n'' \<or> allele1 = toLowerCase allele2)
                    then Some (allele2 @ ''/'' @ allele1)
                    else if str_less allele2 allele1
                    then Some (allele2 @ ''/'' @ allele1)
                    else Some (allele1 @ ''/'' @ allele2))
      | _ \<Rightarrow> None)"

definition MAX_ATTEMPTS :: nat where
  "MAX_ATTEMPTS = 10"

text \<open>\<^verbatim>\<open>allowedForFoal\<close> inside the loop is \<^verbatim>\<open>null\<close> (\<open>None\<close>) when the profile has no
  \<^verbatim>\<open>allowed_alleles\<close>; in the fallback it is the empty array then.\<close>

definition allowedForFoal_loop :: "breed_profile \<Rightarrow> string \<Rightarrow> string list option" where
  "allowedForFoal_loop profile gene =
     (case allowed_alleles profile of
        None \<Rightarrow> None
      | Some al \<Rightarrow> (case map_of al gene of None \<Rightarrow> Some [] | Some l \<Rightarrow> Some l))"

definition allowedForFoal_fallback :: "breed_profile \<Rightarrow> string \<Rightarrow> string list" where
  "allowedForFoal_fallback profile gene =
     (case allowed_alleles profile of
        None \<Rightarrow> []
      | Some al \<Rightarrow> (case map_of al gene of None \<Rightarrow> [] | Some l \<Rightarrow> l))"

definition disallowedForFoal :: "breed_profile \<Rightarrow> string \<Rightarrow> string list" where
  "disallowedForFoal profile gene =
     (case disallowed_combinations profile of
        None \<Rightarrow> []
      | Some d \<Rightarrow> (case map_of d gene of None \<Rightarrow> [] | Some l \<Rightarrow> l))"

text \<open>The \<^verbatim>\<open>while (attempts < MAX_ATTEMPTS)\<close> loop; the result is \<^verbatim>\<open>foalAllelePair\<close> when the
  loop is left.\<close>

function sample_loop ::
  "random_source \<Rightarrow> breed_profile \<Rightarrow> string \<Rightarrow> jsval option \<Rightarrow> jsval option \<Rightarrow> nat \<Rightarrow> world
   \<Rightarrow> string option \<times> world" where
  "sample_loop rnd profile gene sireAllelePair damAllelePair attempts w =
     (if attempts < MAX_ATTEMPTS then
        (let sire_draw = getParentAllele rnd sireAllelePair w;
             dam_draw = getParentAllele rnd damAllelePair (snd sire_draw);
             sirePassedAllele = fst sire_draw;
             damPassedAllele = fst dam_draw;
             w2 = snd dam_draw
         in if sirePassedAllele = None \<or> damPassedAllele = None then (None, w2)
            else
              (let foalAllelePair = combineAlleles sirePassedAllele damPassedAllele
               in if \<not> truthy foalAllelePair then (foalAllelePair, w2)
                  else if allowedForFoal_loop profile gene \<noteq> None
                          \<and> the foalAllelePair \<notin> set (the (allowedForFoal_loop profile gene))
                  then sample_loop rnd profile gene sireAllelePair damAllelePair (attempts + 1) w2
                  else if the foalAllelePair \<in> set (disallowedForFoal profile gene)
                  then sample_loop rnd profile gene sireAllelePair damAllelePair (attempts + 1) w2
                  else (foalAllelePair, w2)))
      else (None, w))"
  by pat_completeness auto

termination
  by (relation "measure (\<lambda>(rnd, profile, gene, s, d, attempts, w). MAX_ATTEMPTS - attempts)") auto

declare sample_loop.simps [simp del]

definition recessivePairs :: "string list" where
  "recessivePairs =
     [''n/n'', ''w/w'', ''e/e'', ''a/a'', ''g/g'', ''rn/rn'', ''lp/lp'', ''to/to'', ''o/o'',
      ''sb1/sb1'', ''d/d'', ''nd2/nd2'', ''patn1/patn1'', ''ch/ch'', ''cr/cr'', ''z/z'',
      ''prl/prl'', ''mu/mu'']"

text \<open>The fallback of one locus, after the direct sampling gave nothing: the profile's
  \<^verbatim>\<open>allele_weights\<close>, then a recessive pair that is allowed, then the first allowed pair.\<close>

definition fallback_default :: "breed_profile \<Rightarrow> string \<Rightarrow> genotype \<times> world \<Rightarrow> genotype \<times> world" where
  "fallback_default profile gene acc =
     (let (foalGenotype, w) = acc;
          allowed = allowedForFoal_fallback profile gene;
          found = List.find (\<lambda>p. p \<in> set allowed) recessivePairs;
          fallbackPair = (if \<not> truthy found \<and> length allowed > 0 then Some (hd allowed) else found)
      in if truthy fallbackPair \<and> the fallbackPair \<notin> set (disallowedForFoal profile gene)
         then (set_gene gene (the fallbackPair) foalGenotype, w)
         else (foalGenotype, signal (Warn_NoValidPair gene) w))"

definition fallback_step ::
  "random_source \<Rightarrow> breed_profile \<Rightarrow> string \<Rightarrow> genotype \<times> world \<Rightarrow> genotype \<times> world" where
  "fallback_step rnd profile gene acc =
     (let (foalGenotype, w) = acc;
          table = (case allele_weights profile of None \<Rightarrow> None | Some aw \<Rightarrow> map_of aw gene)
      in (case table of
            Some weightedAlleles \<Rightarrow>
              (let (fallbackPair, w1) = selectWeightedRandom rnd (Some weightedAlleles) w
               in if truthy fallbackPair \<and> the fallbackPair \<notin> set (disallowedForFoal profile gene)
                  then (set_gene gene (the fallbackPair) foalGenotype, w1)
                  else fallback_default profile gene (foalGenotype, w1))
          | None \<Rightarrow> fallback_default profile gene (foalGenotype, w)))"

text \<open>The body of the loop over \<^verbatim>\<open>genesToInherit\<close>, for one locus. The loop is entered
  when both parents hold a truthy value under the name.\<close>

definition inherit_step ::
  "random_source \<Rightarrow> genotype \<Rightarrow> genotype \<Rightarrow> breed_profile \<Rightarrow> string \<Rightarrow> genotype \<times> world
   \<Rightarrow> genotype \<times> world" where
  "inherit_step rnd sireGenotype damGenotype profile gene acc =
     (let (foalGenotype, w) = acc;
          sireAllelePair = prop_of sireGenotype gene;
          damAllelePair = prop_of damGenotype gene;
          (foalAllelePair, w1) =
            (if truthy_val sireAllelePair \<and> truthy_val damAllelePair
             then sample_loop rnd profile gene sireAllelePair damAllelePair 0 w
             else (None, w))
      in if truthy foalAllelePair then (set_gene gene (the foalAllelePair) foalGenotype, w1)
         else fallback_step rnd profile gene (foalGenotype, w1))"

definition booleanModifiers :: "string list" where
  "booleanModifiers = [''sooty'', ''flaxen'', ''pangare'', ''rabicano'']"

text \<open>\<^verbatim>\<open>[...new Set(xs)]\<close>: the first occurrence of every element, in order.\<close>

definition uniq :: "'a list \<Rightarrow> 'a list" where
  "uniq xs = rev (remdups (rev xs))"

definition genesToInherit :: "genotype \<Rightarrow> genotype \<Rightarrow> breed_profile \<Rightarrow> string list" where
  "genesToInherit sireGenotype damGenotype profile =
     (case allowed_alleles profile of
        Some al \<Rightarrow> map fst al
      | None \<Rightarrow>
          filter (\<lambda>g. g \<notin> set booleanModifiers)
            (uniq (genotype_keys sireGenotype @ genotype_keys damGenotype)))"

text \<open>The callback of \<^verbatim>\<open>definedModifiers.forEach\<close>, for one modifier. The two reads
  \<^verbatim>\<open>sireGenotype[modifier]\<close> and \<^verbatim>\<open>damGenotype[modifier]\<close> give whatever the parent holds
  under the name; when only one parent holds a value, the foal gets that value itself on
  a draw below 0.5. A prevalence that is not a number counts as 0 in
  \<^verbatim>\<open>prevalence || 0\<close>.\<close>

definition inherit_modifier ::
  "random_source \<Rightarrow> genotype \<Rightarrow> genotype \<Rightarrow> string \<times> real option \<Rightarrow> genotype \<times> world
   \<Rightarrow> genotype \<times> world" where
  "inherit_modifier rnd sireGenotype damGenotype entry acc =
     (let (modifier, prevalence) = entry;
          (foalGenotype, w) = acc;
          sireHasModifier = prop_of sireGenotype modifier;
          damHasModifier = prop_of damGenotype modifier;
          prevalence_or_0 = (case prevalence of None \<Rightarrow> 0 | Some p \<Rightarrow> p)
      in if modifier \<notin> set booleanModifiers then (foalGenotype, w)
         else if sireHasModifier = Some (Bool True) \<and> damHasModifier = Some (Bool True)
         then (set_modifier modifier True foalGenotype, w)
         else if sireHasModifier = Some (Bool False) \<and> damHasModifier = Some (Bool False)
         then (set_modifier modifier False foalGenotype, w)
         else if sireHasModifier \<noteq> None \<and> damHasModifier \<noteq> None
         then (let (r, w1) = Math_random rnd w
               in (set_modifier modifier (r < 0.5) foalGenotype, w1))
         else if sireHasModifier \<noteq> None
         then (let (r, w1) = Math_random rnd w
               in if r < 0.5 then (set_value modifier (the sireHasModifier) foalGenotype, w1)
                  else (let (r2, w2) = Math_random rnd w1
                        in (set_modifier modifier (r2 < prevalence_or_0) foalGenotype, w2)))
         else if damHasModifier \<noteq> None
         then (let (r, w1) = Math_random rnd w
               in if r < 0.5 then (set_value modifier (the damHasModifier) foalGenotype, w1)
                  else (let (r2, w2) = Math_random rnd w1
                        in (set_modifier modifier (r2 < prevalence_or_0) foalGenotype, w2)))
         else (case prevalence of
                 Some p \<Rightarrow>
                   (let (r, w1) = Math_random rnd w
                    in (set_modifier modifier (r < p) foalGenotype, w1))
               | None \<Rightarrow> (set_modifier modifier False foalGenotype, w)))"

text \<open>An argument is \<open>None\<close> when the caller passes \<^verbatim>\<open>null\<close> or \<^verbatim>\<open>undefined\<close>.\<close>

definition calculateFoalGenetics ::
  "random_source \<Rightarrow> genotype option \<Rightarrow> genotype option \<Rightarrow> breed_profile option \<Rightarrow> world
   \<Rightarrow> genotype \<times> world" where
  "calculateFoalGenetics rnd sire dam foalBreedGeneticProfile w =
     (case (sire, dam, foalBreedGeneticProfile) of
        (Some sireGenotype, Some damGenotype, Some profile) \<Rightarrow>
          (let acc1 =
                 fold (inherit_step rnd sireGenotype damGenotype profile)
                   (genesToInherit sireGenotype damGenotype profile) (empty_genotype, w)
           in (case boolean_modifiers_prevalence profile of
                 Some bm \<Rightarrow> fold (inherit_modifier rnd sireGenotype damGenotype) bm acc1
               | None \<Rightarrow> acc1))
      | _ \<Rightarrow> (empty_genotype, signal Error_MissingParentOrProfile w))"

section \<open>Phenotype resolver: \<^verbatim>\<open>determinePhenotype\<close>\<close>

subsection \<open>Exceptions\<close>

text \<open>
  A call of a string method on a value that is not a string throws a \<^verbatim>\<open>TypeError\<close>;
  nothing in \<^verbatim>\<open>determinePhenotype\<close> catches it, so the call ends there and the promise
  it returns is rejected. A step that can throw returns \<open>Inl TypeError\<close>, or \<open>Inr\<close> of
  its result; \<open>and_then m f\<close> goes on with \<open>f\<close> on the result of \<open>m\<close> unless \<open>m\<close> threw.
\<close>

datatype js_error = TypeError

definition and_then :: "js_error + 'a \<Rightarrow> ('a \<Rightarrow> js_error + 'b) \<Rightarrow> js_error + 'b" where
  "and_then m f = (case m of Inl e \<Rightarrow> Inl e | Inr x \<Rightarrow> f x)"

text \<open>The receiver of \<^verbatim>\<open>.includes\<close> and \<^verbatim>\<open>.split\<close>: a string has the method, a boolean
  and \<^verbatim>\<open>undefined\<close> have not.\<close>

definition str_receiver :: "jsval option \<Rightarrow> js_error + string" where
  "str_receiver v = (case v of Some (Str s) \<Rightarrow> Inr s | _ \<Rightarrow> Inl TypeError)"

subsection \<open>The helpers over the genotype\<close>

text \<open>\<^verbatim>\<open>fullGenotype[gene] && fullGenotype[gene].includes(allele)\<close> and
  \<^verbatim>\<open>fullGenotype[gene] ? fullGenotype[gene].split('/') : []\<close>: the method is called on
  every truthy value, so a locus that holds \<^verbatim>\<open>true\<close> makes them throw.\<close>

definition hasAllele :: "genotype \<Rightarrow> string \<Rightarrow> string \<Rightarrow> js_error + bool" where
  "hasAllele g gene allele =
     (if truthy_val (prop_of g gene)
      then and_then (str_receiver (prop_of g gene)) (\<lambda>s. Inr (str_includes s allele))
      else Inr False)"

definition getAlleles :: "genotype \<Rightarrow> string \<Rightarrow> js_error + string list" where
  "getAlleles g gene =
     (if truthy_val (prop_of g gene)
      then and_then (str_receiver (prop_of g gene)) (\<lambda>s. Inr (str_split CHR ''/'' s))
      else Inr [])"

definition isHomozygous :: "genotype \<Rightarrow> string \<Rightarrow> string \<Rightarrow> js_error + bool" where
  "isHomozygous g gene allele =
     and_then (getAlleles g gene) (\<lambda>alleles.
       Inr (length alleles = 2 \<and> alleles ! 0 = allele \<and> alleles ! 1 = allele))"

definition isHeterozygous :: "genotype \<Rightarrow> string \<Rightarrow> string \<Rightarrow> string \<Rightarrow> js_error + bool" where
  "isHeterozygous g gene allele1 allele2 =
     and_then (getAlleles g gene) (\<lambda>alleles.
       Inr (length alleles = 2 \<and>
            ((alleles ! 0 = allele1 \<and> alleles ! 1 = allele2) \<or>
             (alleles ! 0 = allele2 \<and> alleles ! 1 = allele1))))"

definition getDominantWhiteAlleles :: "genotype \<Rightarrow> js_error + string list" where
  "getDominantWhiteAlleles g =
     (if \<not> truthy_val (prop_of g ''W_DominantWhite'') \<or>
         prop_of g ''W_DominantWhite'' = Some (Str ''w/w'')
      then Inr []
      else and_then (getAlleles g ''W_DominantWhite'') (\<lambda>alleles.
             Inr (filter (\<lambda>a. startsWith a ''W'' \<and> a \<noteq> ''w'') alleles)))"

definition getSplashWhiteAlleles :: "genotype \<Rightarrow> js_error + string list" where
  "getSplashWhiteAlleles g =
     (if \<not> truthy_val (prop_of g ''SW_SplashWhite'') \<or>
         prop_of g ''SW_SplashWhite'' = Some (Str ''n/n'')
      then Inr []
      else and_then (getAlleles g ''SW_SplashWhite'') (\<lambda>alleles.
             Inr (filter (\<lambda>a. startsWith a ''SW'') alleles)))"

definition getEdenWhiteAlleles :: "genotype \<Rightarrow> js_error + string list" where
  "getEdenWhiteAlleles g =
     (if \<not> truthy_val (prop_of g ''EDXW'') \<or> prop_of g ''EDXW'' = Some (Str ''n/n'')
      then Inr []
      else and_then (getAlleles g ''EDXW'') (\<lambda>alleles.
             Inr (filter (\<lambda>a. startsWith a ''EDXW'') alleles)))"

text \<open>\<^verbatim>\<open>a || b\<close> on strings.\<close>

definition or_else :: "string \<Rightarrow> string \<Rightarrow> string" where
  "or_else a b = (if a \<noteq> [] then a else b)"

text \<open>\<^verbatim>\<open>parts.some((p) => p.toLowerCase().includes('gray'))\<close> and
  \<^verbatim>\<open>parts.join(' ').toLowerCase().includes(term)\<close>.\<close>

definition some_gray :: "string list \<Rightarrow> bool" where
  "some_gray parts = list_ex (\<lambda>p. str_includes (toLowerCase p) ''gray'') parts"

definition joined_includes :: "string list \<Rightarrow> string \<Rightarrow> bool" where
  "joined_includes parts term = str_includes (toLowerCase (str_join '' '' parts)) term"

subsection \<open>The result and the local variables\<close>

record markings =
  face_marking :: string
  leg_markings :: "string object"
  mottling :: bool
  striping :: bool
  bloody_shoulder :: bool

record phenotype =
  final_display_color :: string
  phenotypic_markings :: markings
  determined_shade :: string

text \<open>The variables of \<^verbatim>\<open>determinePhenotype\<close> that its steps assign. \<open>shade\<close> is the local
  \<^verbatim>\<open>determined_shade\<close> (\<open>None\<close> is \<^verbatim>\<open>null\<close>), \<open>marks\<close> the local \<^verbatim>\<open>phenotypic_markings\<close>.\<close>

record locals =
  currentDisplayColor :: string
  baseColor :: string
  phenotypeKeyForShade :: string
  isChestnutBase :: bool
  mushroomPlusHomozygousPearlNoCreamHandled :: bool
  dunEffectDescriptor :: string
  shade :: "string option"
  displayColorParts :: "string list"
  isAllWhiteFromDominant :: bool
  marks :: markings

definition initial_locals :: locals where
  "initial_locals =
     \<lparr>currentDisplayColor = [],
      baseColor = [],
      phenotypeKeyForShade = [],
      isChestnutBase = False,
      mushroomPlusHomozygousPearlNoCreamHandled = False,
      dunEffectDescriptor = [],
      shade = None,
      displayColorParts = [],
      isAllWhiteFromDominant = False,
      marks = \<lparr>face_marking = ''none'',
               leg_markings =
                 [(''LF'', ''none''), (''RF'', ''none''), (''LH'', ''none''), (''RH'', ''none'')],
               mottling = False, striping = False, bloody_shoulder = False\<rparr>\<rparr>"

subsection \<open>Base coat colour\<close>

definition base_stage :: "genotype \<Rightarrow> locals \<Rightarrow> js_error + locals" where
  "base_stage g l =
     and_then (isHomozygous g ''E_Extension'' ''e'') (\<lambda>chestnut.
       if chestnut
       then Inr (l\<lparr>baseColor := ''Chestnut'', phenotypeKeyForShade := ''Chestnut'',
                   isChestnutBase := True\<rparr>)
       else and_then (hasAllele g ''A_Agouti'' ''A'') (\<lambda>agouti.
              if agouti
              then Inr (l\<lparr>baseColor := ''Bay'', phenotypeKeyForShade := ''Bay''\<rparr>)
              else Inr (l\<lparr>baseColor := ''Black'', phenotypeKeyForShade := ''Black''\<rparr>)))"

subsection \<open>Dilutions\<close>

text \<open>In \<^verbatim>\<open>isChestnutBase && hasAllele('MFSD12_Mushroom', 'Mu')\<close> and in the test of the
  special case for mushroom with homozygous pearl, the locus is read only when the
  conditions before it hold.\<close>

definition mushroom_stage :: "genotype \<Rightarrow> locals \<Rightarrow> js_error + locals" where
  "mushroom_stage g l =
     and_then (if isChestnutBase l then hasAllele g ''MFSD12_Mushroom'' ''Mu'' else Inr False)
       (\<lambda>mushroom.
          Inr (if mushroom
               then l\<lparr>currentDisplayColor := ''Mushroom Chestnut'',
                      phenotypeKeyForShade := ''Mushroom''\<rparr>
               else l))"

definition mushroom_pearl_stage :: "genotype \<Rightarrow> locals \<Rightarrow> js_error + locals" where
  "mushroom_pearl_stage g l =
     and_then
       (if currentDisplayColor l = ''Mushroom Chestnut'' \<and>
           prop_of g ''PRL_Pearl'' = Some (Str ''prl/prl'')
        then (if prop_of g ''Cr_Cream'' = Some (Str ''n/n'') then Inr True
              else and_then (hasAllele g ''Cr_Cream'' ''Cr'') (\<lambda>cream. Inr (\<not> cream)))
        else Inr False)
       (\<lambda>special.
          Inr (if special
               then l\<lparr>currentDisplayColor := ''Mushroom Pearl'',
                      phenotypeKeyForShade := ''Mushroom Pearl'',
                      mushroomPlusHomozygousPearlNoCreamHandled := True\<rparr>
               else l))"

definition set_colour :: "string \<Rightarrow> locals \<Rightarrow> locals" where
  "set_colour c l = l\<lparr>currentDisplayColor := c, phenotypeKeyForShade := c\<rparr>"

text \<open>The assignments of a single and of a double cream dilution.\<close>

definition single_cream :: "locals \<Rightarrow> locals" where
  "single_cream l =
     (if baseColor l = ''Chestnut'' then
        l\<lparr>currentDisplayColor :=
             (if str_includes (currentDisplayColor l) ''Mushroom Chestnut''
              then ''Palomino'' else ''Palomino''),
           phenotypeKeyForShade := ''Palomino''\<rparr>
      else if baseColor l = ''Bay'' then set_colour ''Buckskin'' l
      else if baseColor l = ''Black'' then set_colour ''Smoky Black'' l
      else l)"

definition double_cream :: "locals \<Rightarrow> locals" where
  "double_cream l =
     (if baseColor l = ''Chestnut'' then set_colour ''Cremello'' l
      else if baseColor l = ''Bay'' then set_colour ''Perlino'' l
      else if baseColor l = ''Black'' then set_colour ''Smoky Cream'' l
      else l)"

definition cream_stage :: "genotype \<Rightarrow> locals \<Rightarrow> js_error + locals" where
  "cream_stage g l =
     (if truthy_val (prop_of g ''Cr_Cream'') then
        and_then (isHeterozygous g ''Cr_Cream'' ''Cr'' ''n'') (\<lambda>single.
          if single then Inr (single_cream l)
          else and_then (isHomozygous g ''Cr_Cream'' ''Cr'') (\<lambda>double.
                 Inr (if double then double_cream l else l)))
      else Inr l)"

text \<open>The assignments of an active dun.\<close>

definition dun_dilution :: "locals \<Rightarrow> locals" where
  "dun_dilution l =
     (let originalColorForDun = or_else (currentDisplayColor l) (baseColor l);
          c =
            (if baseColor l = ''Black'' \<or> str_includes originalColorForDun ''Smoky Black''
             then ''Grulla''
             else if baseColor l = ''Bay'' \<or> str_includes originalColorForDun ''Buckskin''
             then (if str_includes originalColorForDun ''Buckskin''
                   then ''Buckskin Dun'' else ''Bay Dun'')
             else if baseColor l = ''Chestnut'' \<or>
                     str_includes originalColorForDun ''Palomino'' \<or>
                     str_includes originalColorForDun ''Mushroom Chestnut''
             then (if str_includes originalColorForDun ''Palomino'' then ''Palomino Dun''
                   else if str_includes originalColorForDun ''Mushroom Chestnut''
                   then ''Mushroom Dun''
                   else ''Red Dun'')
             else if originalColorForDun \<in> set [''Cremello'', ''Perlino'', ''Smoky Cream'']
             then originalColorForDun @ '' Dun''
             else originalColorForDun @ '' Dun'')
      in l\<lparr>currentDisplayColor := c, phenotypeKeyForShade := c, dunEffectDescriptor := []\<rparr>)"

definition dun_stage :: "genotype \<Rightarrow> locals \<Rightarrow> js_error + locals" where
  "dun_stage g l =
     and_then (hasAllele g ''D_Dun'' ''D'') (\<lambda>dun.
       if dun then Inr (dun_dilution l)
       else and_then (isHomozygous g ''D_Dun'' ''nd1'') (\<lambda>nonDun1.
              if nonDun1
              then Inr (l\<lparr>dunEffectDescriptor := '' (Non-Dun 1 - Primitive Markings)''\<rparr>)
              else and_then (isHeterozygous g ''D_Dun'' ''nd1'' ''nd2'') (\<lambda>nonDun2.
                     Inr (if nonDun2
                          then l\<lparr>dunEffectDescriptor :=
                                   '' (Non-Dun 2 - Faint Primitive Markings)''\<rparr>
                          else l))))"

text \<open>One row of the champagne table: the name by base colour; \<open>None\<close> is \<^verbatim>\<open>undefined\<close>.\<close>

definition champagne_by_base :: "locals \<Rightarrow> string \<Rightarrow> string \<Rightarrow> string \<Rightarrow> string option" where
  "champagne_by_base l forChestnut forBay forBlack =
     (if isChestnutBase l then Some forChestnut
      else if baseColor l = ''Bay'' then Some forBay
      else if baseColor l = ''Black'' then Some forBlack
      else None)"

text \<open>The assignments of an active champagne, given \<^verbatim>\<open>isSingleCream\<close>, \<^verbatim>\<open>isDoubleCream\<close>
  and \<^verbatim>\<open>isDunActive\<close>.\<close>

definition champagne_dilution :: "bool \<Rightarrow> bool \<Rightarrow> bool \<Rightarrow> locals \<times> world \<Rightarrow> locals \<times> world" where
  "champagne_dilution isSingleCream isDoubleCream isDunActive lw =
     (let (l, w) = lw;
          (determinedChampagneColor, w1) =
            (if \<not> isSingleCream \<and> \<not> isDoubleCream \<and> \<not> isDunActive
             then (champagne_by_base l ''Gold Champagne'' ''Amber Champagne''
                     ''Classic Champagne'', w)
             else if isSingleCream \<and> \<not> isDoubleCream \<and> \<not> isDunActive
             then (champagne_by_base l ''Gold Cream Champagne'' ''Amber Cream Champagne''
                     ''Classic Cream Champagne'', w)
             else if isDoubleCream \<and> \<not> isDunActive
             then (champagne_by_base l ''Ivory Champagne (Cremello)''
                     ''Ivory Champagne (Perlino)'' ''Ivory Champagne (Smoky Cream)'', w)
             else if isDunActive \<and> \<not> isSingleCream \<and> \<not> isDoubleCream
             then (champagne_by_base l ''Gold Dun Champagne'' ''Amber Dun Champagne''
                     ''Classic Dun Champagne'', w)
             else if isSingleCream \<and> \<not> isDoubleCream \<and> isDunActive
             then (champagne_by_base l ''Gold Cream Dun Champagne''
                     ''Amber Cream Dun Champagne'' ''Classic Cream Dun Champagne'', w)
             else if isDoubleCream \<and> isDunActive
             then (champagne_by_base l ''Ivory Dun Champagne (Cremello)''
                     ''Ivory Dun Champagne (Perlino)'' ''Ivory Dun Champagne (Smoky Cream)'', w)
             else (champagne_by_base l ''Gold Champagne'' ''Amber Champagne''
                     ''Classic Champagne'', signal Warn_UnhandledChampagne w))
      in if truthy determinedChampagneColor
         then (set_colour (the determinedChampagneColor) l, w1)
         else (l, w1))"

definition champagne_stage :: "genotype \<Rightarrow> locals \<times> world \<Rightarrow> js_error + locals \<times> world" where
  "champagne_stage g lw =
     and_then (hasAllele g ''CH_Champagne'' ''Ch'') (\<lambda>champagne.
       if champagne then
         and_then (isHeterozygous g ''Cr_Cream'' ''Cr'' ''n'') (\<lambda>isSingleCream.
         and_then (isHomozygous g ''Cr_Cream'' ''Cr'') (\<lambda>isDoubleCream.
         and_then (hasAllele g ''D_Dun'' ''D'') (\<lambda>isDunActive.
           Inr (champagne_dilution isSingleCream isDoubleCream isDunActive lw))))
       else Inr lw)"

text \<open>The assignments of a silver dilution on a base that is not chestnut.\<close>

definition silver_dilution :: "locals \<Rightarrow> locals" where
  "silver_dilution l =
     (let originalColorForSilver = or_else (currentDisplayColor l) (baseColor l);
          cdcLower = toLowerCase originalColorForSilver;
          silverActsOnBlackPigment =
            ((baseColor l = ''Black'' \<or> baseColor l = ''Bay'') \<or>
             (str_includes cdcLower ''classic'' \<or> str_includes cdcLower ''sable'' \<or>
              (str_includes cdcLower ''amber'' \<and> baseColor l = ''Bay'')));
          l1 =
            (if silverActsOnBlackPigment \<and> \<not> str_includes cdcLower ''silver''
             then l\<lparr>currentDisplayColor := ''Silver '' @ originalColorForSilver,
                    phenotypeKeyForShade :=
                      ''Silver '' @
                      replace_first_ci ''Sable'' ''Black''
                        (replace_first_ci ''Gold'' ''Chestnut''
                          (replace_first_ci ''Amber'' ''Bay''
                            (replace_first_ci ''Classic'' ''Black'' (phenotypeKeyForShade l))))\<rparr>
             else l);
          l2 =
            (if startsWith (toLowerCase (phenotypeKeyForShade l1)) ''silver silver''
             then l1\<lparr>phenotypeKeyForShade := drop 7 (phenotypeKeyForShade l1)\<rparr>
             else l1)
      in l2\<lparr>phenotypeKeyForShade :=
              replace_first_ci ''Silver Sable'' ''Silver Black''
                (replace_first_ci ''Silver Amber'' ''Silver Bay''
                  (replace_first_ci ''Silver Classic'' ''Silver Black''
                    (phenotypeKeyForShade l2)))\<rparr>)"

definition silver_stage :: "genotype \<Rightarrow> locals \<Rightarrow> js_error + locals" where
  "silver_stage g l =
     and_then (hasAllele g ''Z_Silver'' ''Z'') (\<lambda>silver.
       Inr (if silver \<and> \<not> isChestnutBase l then silver_dilution l else l))"

subsection \<open>Pearl: \<^verbatim>\<open>applyPearlDilution\<close>\<close>

text \<open>The two clean-up replacements at the end of \<^verbatim>\<open>applyPearlDilution\<close>, which the source
  applies to the key and to the display colour alike.\<close>

definition pearl_cleanup :: "string \<Rightarrow> string" where
  "pearl_cleanup s =
     (let s1 = (if str_includes (toLowerCase s) ''pearl pearl''
                then replace_all_ci ''Pearl Pearl'' ''Pearl'' s else s)
      in if str_includes (toLowerCase s1) ''pearl cream pearl''
         then replace_all_ci ''Pearl Cream Pearl'' ''Pearl Cream'' s1 else s1)"

text \<open>The result is the pair of the new display colour and the new phenotype key. The
  loci are compared with \<^verbatim>\<open>===\<close>, which throws on no value.\<close>

definition applyPearlDilution :: "string \<Rightarrow> string \<Rightarrow> genotype \<Rightarrow> string \<Rightarrow> string \<times> string" where
  "applyPearlDilution currentDisplayColor0 phenotypeKeyForShade0 g baseColor0 =
     (let newDisplayColor = str_trim currentDisplayColor0;
          newPhenotypeKeyForShade = str_trim phenotypeKeyForShade0;
          isHomozygousPearl = (prop_of g ''PRL_Pearl'' = Some (Str ''prl/prl''));
          isHeterozygousPearl =
            (prop_of g ''PRL_Pearl'' = Some (Str ''prl/n'') \<or>
             prop_of g ''PRL_Pearl'' = Some (Str ''n/prl''));
          hasSingleCream =
            (prop_of g ''Cr_Cream'' = Some (Str ''Cr/n'') \<or>
             prop_of g ''Cr_Cream'' = Some (Str ''n/Cr''));
          hasDoubleCream = (prop_of g ''Cr_Cream'' = Some (Str ''Cr/Cr''))
      in if isHomozygousPearl \<or> (isHeterozygousPearl \<and> hasSingleCream) then
           (let originalColorForPearl = newDisplayColor;
                noChampagne = \<not> str_includes (toLowerCase originalColorForPearl) ''champagne'';
                (d1, k1) =
                  (if isHomozygousPearl \<and> \<not> hasSingleCream \<and> \<not> hasDoubleCream then
                     (if baseColor0 = ''Chestnut'' \<and> noChampagne
                      then (''Apricot'', ''Apricot'')
                      else (originalColorForPearl @ '' Pearl'',
                            newPhenotypeKeyForShade @ '' Pearl''))
                   else if hasSingleCream \<and> isHeterozygousPearl then
                     (if originalColorForPearl = ''Palomino'' \<and> noChampagne
                      then (''Palomino Pearl'', ''Palomino Pearl'')
                      else if originalColorForPearl = ''Buckskin'' \<and> noChampagne
                      then (''Buckskin Pearl'', ''Buckskin Pearl'')
                      else if originalColorForPearl = ''Smoky Black'' \<and> noChampagne
                      then (''Smoky Black Pearl'', ''Smoky Black Pearl'')
                      else (replace_first ''  '' '' ''
                              (originalColorForPearl @ '' '' @ ''Pearl Cream''),
                            replace_first ''  '' '' ''
                              (newPhenotypeKeyForShade @ '' '' @ ''Pearl Cream'')))
                   else if hasSingleCream \<and> isHomozygousPearl then
                     (if originalColorForPearl = ''Palomino'' \<or>
                         originalColorForPearl = ''Buckskin'' \<or>
                         originalColorForPearl = ''Smoky Black''
                      then (originalColorForPearl @ '' '' @ ''Homozygous Pearl Cream'',
                            originalColorForPearl @ '' '' @ ''Homozygous Pearl Cream'')
                      else (replace_first ''  '' '' ''
                              (originalColorForPearl @ '' '' @ ''Homozygous Pearl Cream''),
                            replace_first ''  '' '' ''
                              (newPhenotypeKeyForShade @ '' '' @ ''Homozygous Pearl Cream'')))
                   else (newDisplayColor, newPhenotypeKeyForShade));
                (d2, k2) =
                  (if isHomozygousPearl \<and> hasDoubleCream \<and>
                      \<not> str_includes (toLowerCase d1) ''pearl''
                   then (originalColorForPearl @ '' (Pearl)'', k1 @ '' (Pearl)'')
                   else (d1, k1));
                d3 = str_trim (collapse_ws d2);
                k3 = str_trim (collapse_ws k2)
            in (pearl_cleanup d3, pearl_cleanup k3))
         else (newDisplayColor, newPhenotypeKeyForShade))"

definition pearl_stage :: "genotype \<Rightarrow> locals \<Rightarrow> locals" where
  "pearl_stage g l =
     (if \<not> mushroomPlusHomozygousPearlNoCreamHandled l \<and> currentDisplayColor l \<noteq> ''Mushroom Pearl''
      then
        (let pearlResult =
               applyPearlDilution (or_else (currentDisplayColor l) (baseColor l))
                 (or_else (phenotypeKeyForShade l) (baseColor l)) g (baseColor l)
         in l\<lparr>currentDisplayColor := fst pearlResult, phenotypeKeyForShade := snd pearlResult\<rparr>)
      else l)"

subsection \<open>Shade, sooty, flaxen and pangare\<close>

text \<open>The lookup of the shade table: by phenotype key, by base colour, by the first word of
  the key, by \<open>''Default''\<close>; then \<^verbatim>\<open>if (!determined_shade) determined_shade = 'standard'\<close>.\<close>

definition shade_stage ::
  "random_source \<Rightarrow> breed_profile option \<Rightarrow> locals \<times> world \<Rightarrow> locals \<times> world" where
  "shade_stage rnd breedGeneticProfile lw =
     (let (l, w) = lw;
          key = phenotypeKeyForShade l;
          bias = (case breedGeneticProfile of None \<Rightarrow> None | Some profile \<Rightarrow> shade_bias profile);
          (determined, w1) =
            (case bias of
               None \<Rightarrow> (None, w)
             | Some sb \<Rightarrow>
                 if map_of sb key \<noteq> None then selectWeightedRandom rnd (map_of sb key) w
                 else if map_of sb (baseColor l) \<noteq> None \<and> key \<noteq> baseColor l
                 then selectWeightedRandom rnd (map_of sb (baseColor l)) w
                 else
                   (let firstWordOfPhenoKey = hd (str_split CHR '' '' key)
                    in if map_of sb firstWordOfPhenoKey \<noteq> None
                       then selectWeightedRandom rnd (map_of sb firstWordOfPhenoKey) w
                       else if map_of sb ''Default'' \<noteq> None
                       then selectWeightedRandom rnd (map_of sb ''Default'') w
                       else (None, w)))
      in (l\<lparr>shade := Some (if truthy determined then the determined else ''standard'')\<rparr>, w1))"

text \<open>\<^verbatim>\<open>determined_shade ? determined_shade.toLowerCase() : ''\<close>.\<close>

definition shadeLower :: "locals \<Rightarrow> string" where
  "shadeLower l = (if truthy (shade l) then toLowerCase (the (shade l)) else [])"

definition apply_shade :: "locals \<Rightarrow> locals" where
  "apply_shade l =
     (if shadeLower l \<noteq> ''standard'' \<and> shadeLower l \<noteq> ''medium'' \<and>
         \<not> str_includes (toLowerCase (currentDisplayColor l)) (shadeLower l) \<and>
         \<not> str_includes (toLowerCase (currentDisplayColor l)) ''gray''
      then l\<lparr>currentDisplayColor :=
                capitalizeFirstLetter (the (shade l)) @ '' '' @ currentDisplayColor l,
             phenotypeKeyForShade :=
                capitalizeFirstLetter (the (shade l)) @ '' '' @ phenotypeKeyForShade l\<rparr>
      else l)"

definition sooty_stage :: "genotype \<Rightarrow> locals \<Rightarrow> locals" where
  "sooty_stage g l =
     (if prop_of g ''sooty'' = Some (Bool True) \<and>
         \<not> startsWith (toLowerCase (currentDisplayColor l)) ''sooty''
      then l\<lparr>currentDisplayColor := ''Sooty '' @ currentDisplayColor l,
             phenotypeKeyForShade := ''Sooty '' @ phenotypeKeyForShade l\<rparr>
      else l)"

definition init_parts :: "locals \<Rightarrow> locals" where
  "init_parts l = l\<lparr>displayColorParts := [currentDisplayColor l]\<rparr>"

definition push :: "string \<Rightarrow> locals \<Rightarrow> locals" where
  "push part l = l\<lparr>displayColorParts := displayColorParts l @ [part]\<rparr>"

definition flaxen_stage :: "genotype \<Rightarrow> locals \<Rightarrow> locals" where
  "flaxen_stage g l =
     (if isChestnutBase l \<and> prop_of g ''flaxen'' = Some (Bool True) \<and>
         \<not> str_includes (toLowerCase (currentDisplayColor l)) ''palomino'' \<and>
         \<not> str_includes (toLowerCase (currentDisplayColor l)) ''cremello'' \<and>
         \<not> str_includes (toLowerCase (currentDisplayColor l)) ''flaxen'' \<and>
         \<not> joined_includes (displayColorParts l) ''flaxen''
      then push ''Flaxen'' l
      else l)"

definition pangare_stage :: "genotype \<Rightarrow> locals \<Rightarrow> locals" where
  "pangare_stage g l =
     (if prop_of g ''pangare'' = Some (Bool True) \<and>
         \<not> joined_includes (displayColorParts l) ''pangare''
      then push ''Pangare'' l
      else l)"

subsection \<open>Roan\<close>

text \<open>The callback of the \<^verbatim>\<open>forEach\<close> that collects the Dun, Champagne and Pearl words.\<close>

definition descriptor_step :: "string \<Rightarrow> string \<Rightarrow> string \<Rightarrow> string list \<Rightarrow> string list" where
  "descriptor_step roanColorName prefix word existingDescriptors =
     (let wLower = toLowerCase word
      in if (str_includes wLower ''dun'' \<or> str_includes wLower ''champagne'' \<or>
             str_includes wLower ''pearl'') \<and>
            \<not> str_includes (toLowerCase roanColorName) wLower \<and>
            \<not> str_includes (toLowerCase prefix) wLower \<and>
            \<not> str_includes word ''('' \<and> \<not> str_includes word '')'' \<and>
            wLower \<notin> set (map toLowerCase existingDescriptors)
         then existingDescriptors @ [capitalizeFirstLetter wLower]
         else existingDescriptors)"

text \<open>The assignments of a roan on a coat that is not gray.\<close>

definition roan_pattern :: "locals \<Rightarrow> locals" where
  "roan_pattern l =
     (let parts = displayColorParts l;
          cdcForRoanDetermination = toLowerCase (str_join '' '' parts);
          has = str_includes cdcForRoanDetermination;
          roanColorName =
            (if baseColor l = ''Chestnut'' \<or> has ''chestnut'' \<or> has ''palomino'' \<or>
                has ''cremello'' \<or> has ''gold'' \<or> has ''apricot'' \<or> has ''mushroom'' \<or>
                has ''ivory''
             then ''Red Roan''
             else if baseColor l = ''Bay'' \<or> has ''bay'' \<or> has ''buckskin'' \<or>
                     has ''perlino'' \<or> has ''amber''
             then ''Bay Roan''
             else if baseColor l = ''Black'' \<or> has ''black'' \<or> has ''smoky'' \<or>
                     has ''grulla'' \<or> has ''classic'' \<or> has ''sable''
             then ''Blue Roan''
             else [])
      in if roanColorName \<noteq> [] then
           (let words = str_split CHR '' '' (hd parts);
                firstPart = toLowerCase (hd words);
                prefix =
                  (if firstPart = ''sooty'' \<or> (truthy (shade l) \<and> firstPart = shadeLower l)
                   then
                     (if firstPart = ''sooty'' \<and> truthy (shade l) \<and> length words > 1 \<and>
                         toLowerCase (words ! 1) = shadeLower l
                      then hd words @ '' '' @ words ! 1 @ '' ''
                      else hd words @ '' '')
                   else []);
                existingDescriptors =
                  fold (descriptor_step roanColorName prefix)
                    (str_split CHR '' '' (str_join '' '' parts)) []
            in l\<lparr>displayColorParts := [prefix @ roanColorName] @ existingDescriptors,
                  phenotypeKeyForShade := roanColorName\<rparr>)
         else if \<not> list_ex (\<lambda>p. str_includes (toLowerCase p) ''roan'') parts
         then push ''Roan'' l
         else l)"

definition roan_stage :: "genotype \<Rightarrow> locals \<Rightarrow> js_error + locals" where
  "roan_stage g l =
     and_then
       (if truthy_val (prop_of g ''Rn_Roan'') then hasAllele g ''Rn_Roan'' ''Rn'' else Inr False)
       (\<lambda>roan.
          Inr (if roan \<and> \<not> some_gray (displayColorParts l) then roan_pattern l else l))"

subsection \<open>White patterns\<close>

definition lethalWhite :: "string list" where
  "lethalWhite = [''W2'', ''W4'', ''W5'', ''W10'', ''W13'', ''W19'', ''W22'']"

text \<open>The effect of the dominant-white alleles \<^verbatim>\<open>wAlleles\<close>.\<close>

definition dominant_white :: "string list \<Rightarrow> locals \<Rightarrow> locals" where
  "dominant_white wAlleles l =
     (if length wAlleles > 0 then
        (if list_ex (\<lambda>w. w \<in> set lethalWhite) wAlleles
         then l\<lparr>displayColorParts := [''White''], phenotypeKeyForShade := ''Dominant White'',
                isAllWhiteFromDominant := True\<rparr>
         else if ''W20'' \<in> set wAlleles then
           (if \<not> isAllWhiteFromDominant l \<and>
               \<not> joined_includes (displayColorParts l) ''minimal white''
            then push ''Minimal White (W20)'' l
            else l)
         else
           (if \<not> isAllWhiteFromDominant l \<and>
               \<not> joined_includes (displayColorParts l) ''dominant white'' \<and>
               \<not> joined_includes (displayColorParts l) ''white''
            then push ''Dominant White'' l
            else l))
      else l)"

definition white_stage :: "genotype \<Rightarrow> locals \<Rightarrow> js_error + locals" where
  "white_stage g l =
     and_then (getDominantWhiteAlleles g) (\<lambda>wAlleles. Inr (dominant_white wAlleles l))"

text \<open>\<^verbatim>\<open>if (!parts.join(' ').toLowerCase().includes(term.toLowerCase())) parts.push(term)\<close>.\<close>

definition push_term :: "string \<Rightarrow> string list \<Rightarrow> string list" where
  "push_term term parts =
     (if \<not> joined_includes parts (toLowerCase term) then parts @ [term] else parts)"

text \<open>The parts that frame overo, tobiano, sabino, splash white and Eden white add, given
  the outcome of the three tests and the two lists of alleles.\<close>

definition spotting_patterns ::
  "bool \<Rightarrow> bool \<Rightarrow> bool \<Rightarrow> string list \<Rightarrow> string list \<Rightarrow> locals \<Rightarrow> locals" where
  "spotting_patterns frame tobiano sabino splashAlleles edenAlleles l =
     (let p0 = displayColorParts l;
          p1 = (if frame \<and> \<not> joined_includes p0 ''frame overo''
                then p0 @ [''Frame Overo''] else p0);
          p2 = (if tobiano \<and> \<not> joined_includes p1 ''tobiano''
                then p1 @ [''Tobiano''] else p1);
          p3 = (if sabino \<and> \<not> joined_includes p2 ''sabino''
                then p2 @ [''Sabino''] else p2);
          splashTerms = map (\<lambda>sa. ''Splash White '' @ replace_first ''SW'' [] sa) splashAlleles;
          p4 = fold push_term splashTerms p3;
          edenTerms = map (\<lambda>ea. ''Eden White '' @ replace_first ''EDXW'' [] ea) edenAlleles;
          p5 = fold push_term edenTerms p4
      in l\<lparr>displayColorParts := p5\<rparr>)"

text \<open>The five loci are read in this order, and only on a coat that is not all white.\<close>

definition patterns_stage :: "genotype \<Rightarrow> locals \<Rightarrow> js_error + locals" where
  "patterns_stage g l =
     (if \<not> isAllWhiteFromDominant l then
        and_then (hasAllele g ''O_FrameOvero'' ''O'') (\<lambda>frame.
        and_then (hasAllele g ''TO_Tobiano'' ''TO'') (\<lambda>tobiano.
        and_then (hasAllele g ''SB1_Sabino1'' ''SB1'') (\<lambda>sabino.
        and_then (getSplashWhiteAlleles g) (\<lambda>splashAlleles.
        and_then (getEdenWhiteAlleles g) (\<lambda>edenAlleles.
          Inr (spotting_patterns
                 (frame \<and> prop_of g ''O_FrameOvero'' \<noteq> Some (Str ''O/O''))
                 tobiano sabino splashAlleles edenAlleles l))))))
      else Inr l)"

subsection \<open>Leopard complex, gray, rabicano and the primitive markings of non-dun\<close>

text \<open>\<^verbatim>\<open>breedGeneticProfile?.advanced_markings_bias?.field ?? 1.0\<close>.\<close>

definition advanced_multiplier ::
  "breed_profile option \<Rightarrow> (advanced_markings_bias \<Rightarrow> real option) \<Rightarrow> real" where
  "advanced_multiplier breedGeneticProfile field =
     (case breedGeneticProfile of
        None \<Rightarrow> 1
      | Some profile \<Rightarrow>
          (case advanced_markings_bias profile of
             None \<Rightarrow> 1
           | Some amb \<Rightarrow> (case field amb of None \<Rightarrow> 1 | Some m \<Rightarrow> m)))"

text \<open>The name of the pattern of a heterozygous leopard complex without Pattern-1: two or
  three draws.\<close>

definition lp_het_pattern ::
  "random_source \<Rightarrow> breed_profile option \<Rightarrow> real \<Rightarrow> world \<Rightarrow> string \<times> world" where
  "lp_het_pattern rnd breedGeneticProfile ageInYears w =
     (let agePrefix =
            (if ageInYears \<le> 4 then ''Light'' else if ageInYears \<le> 8 then ''Moderate''
             else ''Heavy'');
          snowProb = advanced_multiplier breedGeneticProfile snowflake_probability_multiplier * 0.5;
          frostProb = advanced_multiplier breedGeneticProfile frost_probability_multiplier * 0.5;
          (selected, w1) =
            selectWeightedRandom rnd
              (Some [(''Snowflake'', Some snowProb), (''Frost'', Some frostProb)]) w;
          (sfModifier, w2) =
            (if truthy selected then (the selected, w1)
             else (let (r, w') = Math_random rnd w1
                   in (if r < 0.5 then ''Snowflake'' else ''Frost'', w')));
          (r3, w3) = Math_random rnd w2;
          underlyingPattern = (if r3 < 0.5 then ''Blanket'' else ''Varnish Roan'')
      in (agePrefix @ '' '' @ sfModifier @ '' '' @ underlyingPattern, w3))"

text \<open>The effect of the leopard complex, given \<^verbatim>\<open>hasLP\<close> and \<^verbatim>\<open>hasPATN1\<close>.\<close>

definition leopard_pattern ::
  "random_source \<Rightarrow> breed_profile option \<Rightarrow> real \<Rightarrow> genotype \<Rightarrow> bool \<Rightarrow> bool \<Rightarrow> locals \<times> world
   \<Rightarrow> locals \<times> world" where
  "leopard_pattern rnd breedGeneticProfile ageInYears g hasLP hasPATN1 lw =
     (let (l, w) = lw
      in if hasLP \<and> \<not> isAllWhiteFromDominant l then
           (let l1 = l\<lparr>marks := (marks l)\<lparr>mottling := True, striping := True\<rparr>\<rparr>;
                (lpPatternName, w1) =
                  (if prop_of g ''LP_LeopardComplex'' = Some (Str ''LP/LP'')
                   then (if hasPATN1 then ''Fewspot Leopard'' else ''Snowcap'', w)
                   else if prop_of g ''LP_LeopardComplex'' = Some (Str ''LP/lp'')
                   then (if hasPATN1 then (''Leopard Appaloosa'', w)
                         else lp_het_pattern rnd breedGeneticProfile ageInYears w)
                   else ([], w))
            in if lpPatternName \<noteq> [] \<and>
                  \<not> joined_includes (displayColorParts l1) (toLowerCase lpPatternName)
               then
                 (let l2 = push lpPatternName l1
                  in (if \<not> some_gray (displayColorParts l2)
                      then l2\<lparr>phenotypeKeyForShade := lpPatternName\<rparr> else l2, w1))
               else (l1, w1))
         else (l, w))"

text \<open>\<^verbatim>\<open>hasLP\<close> and \<^verbatim>\<open>hasPATN1\<close> are computed before the test on the white coat, with
  the expression of \<^verbatim>\<open>hasAllele\<close> written out in the source.\<close>

definition leopard_stage ::
  "random_source \<Rightarrow> breed_profile option \<Rightarrow> real \<Rightarrow> genotype \<Rightarrow> locals \<times> world
   \<Rightarrow> js_error + locals \<times> world" where
  "leopard_stage rnd breedGeneticProfile ageInYears g lw =
     and_then (hasAllele g ''LP_LeopardComplex'' ''LP'') (\<lambda>hasLP.
     and_then (hasAllele g ''PATN1_Pattern1'' ''PATN1'') (\<lambda>patn1.
       Inr (leopard_pattern rnd breedGeneticProfile ageInYears g hasLP
              (patn1 \<and> prop_of g ''PATN1_Pattern1'' \<noteq> Some (Str ''patn1/patn1'')) lw)))"

text \<open>The assignments of a gray coat: the colour by base tone and age, and the draw for
  the bloody shoulder.\<close>

definition gray_colour ::
  "random_source \<Rightarrow> breed_profile option \<Rightarrow> real \<Rightarrow> locals \<times> world \<Rightarrow> locals \<times> world" where
  "gray_colour rnd breedGeneticProfile ageInYears lw =
     (let (l, w) = lw;
          grayBaseTone =
            (if baseColor l = ''Black'' \<or> baseColor l = ''Bay'' then ''Steel''
             else if baseColor l = ''Chestnut'' \<or> baseColor l = ''Mushroom Chestnut''
             then ''Rose''
             else []);
          grayPhenotype0 =
            (if ageInYears \<le> 3 then str_trim (grayBaseTone @ '' Gray'')
             else if ageInYears \<le> 6 then str_trim (grayBaseTone @ '' Dark Dapple Gray'')
             else if ageInYears \<le> 9 then str_trim (grayBaseTone @ '' Light Dapple Gray'')
             else if ageInYears \<le> 12 then ''White Gray''
             else ''Fleabitten Gray'');
          grayPhenotype =
            (if grayBaseTone = [] \<and> ageInYears \<le> 9
             then str_trim (grayBaseTone @ '' Gray'') else grayPhenotype0);
          l1 = l\<lparr>displayColorParts := [grayPhenotype], phenotypeKeyForShade := grayPhenotype\<rparr>;
          bloodyShoulderChance =
            0.001 * advanced_multiplier breedGeneticProfile
                      bloody_shoulder_probability_multiplier;
          (r, w1) = Math_random rnd w
      in (if r < bloodyShoulderChance
          then l1\<lparr>marks := (marks l1)\<lparr>bloody_shoulder := True\<rparr>\<rparr> else l1, w1))"

definition gray_stage ::
  "random_source \<Rightarrow> breed_profile option \<Rightarrow> real \<Rightarrow> genotype \<Rightarrow> locals \<times> world
   \<Rightarrow> js_error + locals \<times> world" where
  "gray_stage rnd breedGeneticProfile ageInYears g lw =
     and_then (hasAllele g ''G_Gray'' ''G'') (\<lambda>gray.
       Inr (if gray \<and> \<not> isAllWhiteFromDominant (fst lw)
            then gray_colour rnd breedGeneticProfile ageInYears lw
            else lw))"

definition rabicano_stage :: "genotype \<Rightarrow> locals \<Rightarrow> locals" where
  "rabicano_stage g l =
     (if prop_of g ''rabicano'' = Some (Bool True) \<and> \<not> isAllWhiteFromDominant l \<and>
         \<not> some_gray (displayColorParts l) \<and>
         \<not> joined_includes (displayColorParts l) ''rabicano''
      then push ''Rabicano'' l
      else l)"

definition dun_primitive_stage :: "locals \<Rightarrow> locals" where
  "dun_primitive_stage l =
     (if dunEffectDescriptor l \<noteq> [] \<and>
         \<not> list_ex (\<lambda>p. str_includes (toLowerCase p) ''dun'' \<and> \<not> str_includes p ''('')
              (displayColorParts l) \<and>
         \<not> str_includes (str_join '' '' (displayColorParts l)) (dunEffectDescriptor l) \<and>
         \<not> isAllWhiteFromDominant l \<and>
         \<not> some_gray (displayColorParts l)
      then push (dunEffectDescriptor l) l
      else l)"

subsection \<open>Final assembly\<close>

text \<open>The body of the deduplication loop: the accumulator is \<^verbatim>\<open>uniqueParts\<close> and the
  elements of the set \<^verbatim>\<open>seenTerms\<close>.\<close>

definition dedupe_step :: "string \<Rightarrow> string list \<times> string list \<Rightarrow> string list \<times> string list" where
  "dedupe_step part acc =
     (let (uniqueParts, seenTerms) = acc
      in if part \<noteq> [] \<and> str_trim part \<noteq> [] then
           (let partWords = map toLowerCase (str_split CHR '' '' part);
                primaryTerm = last partWords
            in if primaryTerm \<notin> set seenTerms
               then (uniqueParts @ [str_trim part], seenTerms @ [primaryTerm])
               else
                 (case findIndex (\<lambda>p. endsWith (toLowerCase p) primaryTerm) uniqueParts of
                    None \<Rightarrow> acc
                  | Some existingIndex \<Rightarrow>
                      if length (str_split CHR '' '' part) >
                         length (str_split CHR '' '' (uniqueParts ! existingIndex))
                      then (uniqueParts[existingIndex := str_trim part], seenTerms)
                      else acc))
         else acc)"

definition dedupe_stage :: "locals \<Rightarrow> locals" where
  "dedupe_stage l =
     l\<lparr>displayColorParts := fst (fold dedupe_step (displayColorParts l) ([], []))\<rparr>"

text \<open>The predicate of the \<^verbatim>\<open>find\<close> that picks \<^verbatim>\<open>mainColorPart\<close>.\<close>

definition is_main_candidate :: "locals \<Rightarrow> string \<Rightarrow> bool" where
  "is_main_candidate l p =
     (let pl = toLowerCase p
      in \<not> startsWith pl ''sooty'' \<and>
         \<not> (truthy (shade l) \<and> startsWith pl (shadeLower l) \<and> p \<noteq> the (shade l)) \<and>
         pl \<notin> set [''pangare'', ''flaxen'', ''rabicano''] \<and>
         \<not> str_includes pl ''dun ('' \<and>
         \<not> str_includes pl ''white'' \<and>
         \<not> str_includes pl ''overo'' \<and>
         \<not> str_includes pl ''tobiano'' \<and>
         \<not> str_includes pl ''sabino'' \<and>
         \<not> str_includes pl ''appaloosa'')"

definition reorder_stage :: "locals \<Rightarrow> locals" where
  "reorder_stage l =
     (let parts = displayColorParts l
      in if length parts > 1 \<and> \<not> isAllWhiteFromDominant l \<and>
            \<not> str_includes (toLowerCase (hd parts)) ''gray''
         then
           (let found = List.find (is_main_candidate l) parts;
                mainColorPart = (if truthy found then the found else hd parts);
                sootyPrefix = List.find (\<lambda>p. toLowerCase p = ''sooty'') parts;
                shadePrefix =
                  (if truthy (shade l) \<and> shadeLower l \<noteq> ''standard'' \<and> shadeLower l \<noteq> ''medium''
                   then List.find
                          (\<lambda>p. startsWith (toLowerCase p) (shadeLower l) \<and>
                               str_includes (toLowerCase p)
                                 (toLowerCase (last (str_split CHR '' '' mainColorPart))))
                          parts
                   else None);
                otherDescriptors =
                  filter (\<lambda>p. p \<noteq> mainColorPart \<and> Some p \<noteq> sootyPrefix \<and> Some p \<noteq> shadePrefix)
                    parts;
                orderedParts =
                  (if truthy sootyPrefix \<and> sootyPrefix \<noteq> Some mainColorPart \<and>
                      sootyPrefix \<noteq> shadePrefix
                   then [the sootyPrefix] else [])
                  @ [mainColorPart] @ otherDescriptors
            in l\<lparr>displayColorParts := uniq (filter (\<lambda>v. v \<noteq> []) orderedParts)\<rparr>)
         else l)"

definition assemble :: "locals \<Rightarrow> string" where
  "assemble l =
     (let joined = str_trim (collapse_blanks (str_join '' '' (displayColorParts l)))
      in if str_trim joined = [] then or_else (baseColor l) ''Undefined Phenotype'' else joined)"

subsection \<open>Markings\<close>

text \<open>The callback of the \<^verbatim>\<open>forEach\<close> over the four legs: the accumulator is the \<^verbatim>\<open>legs\<close>
  object, \<^verbatim>\<open>legsMarkedCount\<close> and the state.\<close>

definition leg_step ::
  "random_source \<Rightarrow> marking_bias \<Rightarrow> real \<Rightarrow> string \<Rightarrow> string object \<times> nat \<times> world
   \<Rightarrow> string object \<times> nat \<times> world" where
  "leg_step rnd mb maxLegs leg acc =
     (let (legs, legsMarkedCount, w) = acc
      in if real legsMarkedCount < maxLegs then
           (let (r, w1) = Math_random rnd w
            in if r < the (legs_general_probability mb) then
                 (let (selected, w2) = selectWeightedRandom rnd (leg_specific_probabilities mb) w1;
                      marking = (if truthy selected then the selected else ''none'')
                  in (set_prop leg marking legs,
                      if marking \<noteq> ''none'' then legsMarkedCount + 1 else legsMarkedCount, w2))
               else (set_prop leg ''none'' legs, legsMarkedCount, w1))
         else (set_prop leg ''none'' legs, legsMarkedCount, w))"

definition markings_stage ::
  "random_source \<Rightarrow> breed_profile option \<Rightarrow> locals \<times> world \<Rightarrow> locals \<times> world" where
  "markings_stage rnd breedGeneticProfile lw =
     (let (l, w) = lw
      in (case (case breedGeneticProfile of None \<Rightarrow> None | Some profile \<Rightarrow> marking_bias profile) of
            None \<Rightarrow> (l, w)
          | Some mb \<Rightarrow>
              (let (m1, w1) =
                     (case face mb of
                        None \<Rightarrow> (marks l, w)
                      | Some table \<Rightarrow>
                          (let (selected, w') = selectWeightedRandom rnd (Some table) w
                           in ((marks l)\<lparr>face_marking :=
                                            (if truthy selected then the selected else ''none'')\<rparr>,
                               w')));
                   legMarkingTypes =
                     (case leg_specific_probabilities mb of None \<Rightarrow> [] | Some t \<Rightarrow> map fst t)
               in if length legMarkingTypes > 0 \<and> legs_general_probability mb \<noteq> None then
                    (let maxLegs = (case max_legs_marked mb of None \<Rightarrow> 4 | Some n \<Rightarrow> n);
                         (legs, legsMarkedCount, w2) =
                           fold (leg_step rnd mb maxLegs) [''LF'', ''RF'', ''LH'', ''RH'']
                             (leg_markings m1, 0, w1)
                     in (l\<lparr>marks := m1\<lparr>leg_markings := legs\<rparr>\<rparr>, w2))
                  else (l\<lparr>marks := m1\<rparr>, w1))))"

subsection \<open>The entry point\<close>

text \<open>The steps of \<^verbatim>\<open>determinePhenotype\<close> in the order of the source, for a genotype that is
  an object. The result is the value the returned promise resolves to, or the error it
  is rejected with.\<close>

definition resolve ::
  "random_source \<Rightarrow> genotype \<Rightarrow> breed_profile option \<Rightarrow> real \<Rightarrow> world
   \<Rightarrow> js_error + phenotype \<times> world" where
  "resolve rnd g breedGeneticProfile ageInYears w =
     and_then (base_stage g initial_locals) (\<lambda>l1.
     and_then (mushroom_stage g l1) (\<lambda>l2.
     and_then (mushroom_pearl_stage g l2) (\<lambda>l3.
     and_then (cream_stage g l3) (\<lambda>l4.
     and_then (dun_stage g l4) (\<lambda>l5.
     and_then (champagne_stage g (l5, w)) (\<lambda>(l6, w6).
     and_then (silver_stage g l6) (\<lambda>l7.
       let (l8, w8) = shade_stage rnd breedGeneticProfile (pearl_stage g l7, w6);
           l9 = pangare_stage g (flaxen_stage g (init_parts (sooty_stage g (apply_shade l8))))
       in
     and_then (roan_stage g l9) (\<lambda>l10.
     and_then (white_stage g l10) (\<lambda>l11.
     and_then (patterns_stage g l11) (\<lambda>l12.
     and_then (leopard_stage rnd breedGeneticProfile ageInYears g (l12, w8)) (\<lambda>(l13, w13).
     and_then (gray_stage rnd breedGeneticProfile ageInYears g (l13, w13)) (\<lambda>(l14, w14).
       let l15 = reorder_stage (dedupe_stage (dun_primitive_stage (rabicano_stage g l14)));
           (l16, w16) = markings_stage rnd breedGeneticProfile (l15, w14)
       in Inr (\<lparr>final_display_color = assemble l15,
                 phenotypic_markings = marks l16,
                 determined_shade = the (shade l16)\<rparr>, w16)))))))))))))"

text \<open>A call with \<^verbatim>\<open>null\<close> or \<^verbatim>\<open>undefined\<close> for the genotype (\<open>None\<close>) throws a
  \<^verbatim>\<open>TypeError\<close> at the first read of a locus, \<^verbatim>\<open>fullGenotype[gene]\<close>.\<close>

definition determinePhenotype ::
  "random_source \<Rightarrow> genotype option \<Rightarrow> breed_profile option \<Rightarrow> real \<Rightarrow> world
   \<Rightarrow> js_error + phenotype \<times> world" where
  "determinePhenotype rnd fullGenotype breedGeneticProfile ageInYears w =
     (case fullGenotype of
        None \<Rightarrow> Inl TypeError
      | Some g \<Rightarrow> resolve rnd g breedGeneticProfile ageInYears w)"

section \<open>Predicates and scenarios of the specification\<close>

text \<open>The invariant of generation and inheritance: no locus of the genotype holds a pair
  that the profile disallows.\<close>

definition respects_disallowed :: "breed_profile \<Rightarrow> genotype \<Rightarrow> bool" where
  "respects_disallowed profile g =
     (\<forall>gene pair. gene_of g gene = Some pair \<longrightarrow> \<not> is_disallowed profile gene pair)"

text \<open>In the words of the specification: the pair of a locus contains an allele; the pair
  of the dominant-white locus contains an allele of the lethal set.\<close>

definition carries :: "genotype \<Rightarrow> string \<Rightarrow> string \<Rightarrow> bool" where
  "carries g gene allele =
     (case gene_of g gene of
        None \<Rightarrow> False
      | Some pair \<Rightarrow> allele \<in> set (str_split CHR ''/'' pair))"

definition carries_lethal_white :: "genotype \<Rightarrow> bool" where
  "carries_lethal_white g = list_ex (carries g ''W_DominantWhite'') lethalWhite"

text \<open>The loci on which the resolver calls a string method, and the genotypes in which
  none of them holds \<^verbatim>\<open>true\<close>: each of these loci holds an allele pair or \<^verbatim>\<open>false\<close>, or is
  absent.\<close>

definition method_loci :: "string list" where
  "method_loci =
     [''E_Extension'', ''A_Agouti'', ''MFSD12_Mushroom'', ''Cr_Cream'', ''D_Dun'',
      ''CH_Champagne'', ''Z_Silver'', ''Rn_Roan'', ''W_DominantWhite'', ''O_FrameOvero'',
      ''TO_Tobiano'', ''SB1_Sabino1'', ''SW_SplashWhite'', ''EDXW'', ''LP_LeopardComplex'',
      ''PATN1_Pattern1'', ''G_Gray'']"

definition no_locus_true :: "genotype \<Rightarrow> bool" where
  "no_locus_true g = list_all (\<lambda>k. prop_of g k \<noteq> Some (Bool True)) method_loci"

text \<open>The base colour of a genotype: chestnut when the two alleles of the extension pair
  are \<^verbatim>\<open>e\<close>; otherwise bay when the agouti pair has an \<^verbatim>\<open>A\<close>, and black when it has not.\<close>

definition base_colour :: "genotype \<Rightarrow> string" where
  "base_colour g =
     (if (case gene_of g ''E_Extension'' of
            None \<Rightarrow> False
          | Some pair \<Rightarrow> str_split CHR ''/'' pair = [''e'', ''e''])
      then ''Chestnut''
      else if (case gene_of g ''A_Agouti'' of
                 None \<Rightarrow> False
               | Some pair \<Rightarrow> str_includes pair ''A'')
      then ''Bay''
      else ''Black'')"




text \<open>The genotype of the first test of \<^verbatim>\<open>geneticsEngine.test.js\<close>.\<close>

definition gold_champagne_genotype :: genotype where
  "gold_champagne_genotype =
     \<lparr>genes = [(''E_Extension'', ''e/e''), (''A_Agouti'', ''a/a''), (''Cr_Cream'', ''n/n''),
               (''D_Dun'', ''n/n''), (''CH_Champagne'', ''Ch/n'')],
      modifiers = []\<rparr>"

text \<open>The genotype of the last test of \<^verbatim>\<open>geneticsEngine.test.js\<close>.\<close>

definition mushroom_pearl_genotype :: genotype where
  "mushroom_pearl_genotype =
     \<lparr>genes = [(''E_Extension'', ''e/e''), (''MFSD12_Mushroom'', ''Mu/n''),
               (''PRL_Pearl'', ''prl/prl''), (''Cr_Cream'', ''n/n''), (''A_Agouti'', ''a/a''),
               (''CH_Champagne'', ''n/n''), (''D_Dun'', ''n/n'')],
      modifiers = []\<rparr>"

text \<open>The local variables after the first step on a chestnut base, and after the mushroom
  steps of that genotype.\<close>

definition chestnut_locals :: locals where
  "chestnut_locals =
     initial_locals\<lparr>baseColor := ''Chestnut'', phenotypeKeyForShade := ''Chestnut'',
                    isChestnutBase := True\<rparr>"

definition mushroom_pearl_locals :: locals where
  "mushroom_pearl_locals =
     chestnut_locals
       \<lparr>currentDisplayColor := ''Mushroom Pearl'', phenotypeKeyForShade := ''Mushroom Pearl'',
        mushroomPlusHomozygousPearlNoCreamHandled := True\<rparr>"

text \<open>What the steps after the first leave as it is: the base colour, the flag of a coat that
  is all white, the shade and the markings.\<close>

definition frame :: "locals \<Rightarrow> locals \<Rightarrow> bool" where
  "frame l l' =
     (baseColor l' = baseColor l \<and> isChestnutBase l' = isChestnutBase l \<and>
      isAllWhiteFromDominant l' = isAllWhiteFromDominant l \<and> shade l' = shade l \<and>
      marks l' = marks l)"

section \<open>Properties of the allele selector\<close>

lemma sumOfWeights_sum_list:
  "sumOfWeights items s =
   s + sum_list (map (\<lambda>(k, v). if valid_weight v then the v else 0) items)"
  by (induction items s rule: sumOfWeights.induct) auto

lemma sumOfWeights_no_valid:
  "filter (\<lambda>(key, v). valid_weight v) items = [] \<Longrightarrow> sumOfWeights items s = s"
  by (induction items s rule: sumOfWeights.induct) (auto split: if_splits)

lemma walk_key: "walk items r = Some k \<Longrightarrow> k \<in> fst ` set items"
  by (induction items r rule: walk.induct) (auto split: if_splits)

lemma selectWeightedRandom_zero_sum:
  "items \<noteq> [] \<Longrightarrow> sumOfWeights items 0 = 0 \<Longrightarrow>
   selectWeightedRandom rnd (Some items) w = (Some (fst (hd items)), w)"
  by (cases items) (auto simp: selectWeightedRandom_def)

lemma selectWeightedRandom_some_key:
  assumes "items \<noteq> []"
  shows "\<exists>k. fst (selectWeightedRandom rnd (Some items) w) = Some k \<and> k \<in> fst ` set items"
proof (cases "sumOfWeights items 0 = 0")
  case True
  with assms show ?thesis
    by (cases items) (auto simp: selectWeightedRandom_zero_sum)
next
  case False
  have ne: "filter (\<lambda>(key, v). valid_weight v) items \<noteq> []"
    using False sumOfWeights_no_valid [of items 0] by auto
  let ?r = "draw_value (rnd (draws w)) * sumOfWeights items 0"
  show ?thesis
  proof (cases "walk items ?r")
    case None
    have "last (filter (\<lambda>(key, v). valid_weight v) items)
            \<in> set (filter (\<lambda>(key, v). valid_weight v) items)"
      using ne by (rule last_in_set)
    then have "fst (last (filter (\<lambda>(key, v). valid_weight v) items)) \<in> fst ` set items"
      by auto
    with None False assms ne show ?thesis
      by (simp add: selectWeightedRandom_def Math_random_def Let_def last_map)
  next
    case (Some k)
    with False assms walk_key [OF Some] show ?thesis
      by (simp add: selectWeightedRandom_def Math_random_def Let_def)
  qed
qed

lemma selectWeightedRandom_truthy_key:
  "truthy (fst (selectWeightedRandom rnd (Some items) w)) \<Longrightarrow>
   the (fst (selectWeightedRandom rnd (Some items) w)) \<in> fst ` set items"
proof (cases "items = []")
  case True
  assume "truthy (fst (selectWeightedRandom rnd (Some items) w))"
  with True show ?thesis by (simp add: selectWeightedRandom_def truthy_def)
next
  case False
  from selectWeightedRandom_some_key [OF False, of rnd w] show ?thesis by force
qed

text \<open>
  Claim C8, as the specification states it: when the valid weights of a non-empty weight
  map sum to zero, \<^verbatim>\<open>selectWeightedRandom\<close> returns the first declared key of the map, in
  insertion order. It fails for a map with a key that is an array index: the object
  \<^verbatim>\<open>{b: 0, '1': 0}\<close> declares \<^verbatim>\<open>b\<close> first, but \<^verbatim>\<open>Object.keys\<close>, whose first element the
  function returns, starts with \<^verbatim>\<open>'1'\<close>.
\<close>

theorem selectWeightedRandom_zero_total_counterexample:
  "selectWeightedRandom (\<lambda>n. draw_of 0)
     (Some (object_literal [(''b'', Some 0), (''1'', Some 0)])) \<lparr>draws = 0, console = []\<rparr>
   = (Some ''1'', \<lparr>draws = 0, console = []\<rparr>)"
  by (simp add: object_literal_def is_array_index_def is_digit_def numeral_value_def
      selectWeightedRandom_def valid_weight_def)

text \<open>
  Claim C8, amended: when the valid weights of a non-empty weight map (the numeric,
  non-negative ones) sum to zero, \<^verbatim>\<open>selectWeightedRandom\<close> returns the first key of the map
  in the order of \<^verbatim>\<open>Object.keys\<close>, whatever the random source holds, and makes no draw; in
  particular \<^verbatim>\<open>selectWeightedRandom({a: 0, b: 0})\<close> is \<^verbatim>\<open>'a'\<close>.
\<close>

theorem selectWeightedRandom_zero_total_first_key:
  "(items \<noteq> [] \<and> sum_list (map (\<lambda>(k, v). if valid_weight v then the v else 0) items) = 0
      \<longrightarrow> selectWeightedRandom rnd (Some items) w = (Some (fst (hd items)), w)) \<and>
   selectWeightedRandom rnd' (Some [(''a'', Some 0), (''b'', Some 0)]) w' = (Some ''a'', w')"
proof (intro conjI impI)
  assume a: "items \<noteq> [] \<and>
    sum_list (map (\<lambda>(k, v). if valid_weight v then the v else 0) items) = 0"
  then have "sumOfWeights items 0 = 0"
    by (simp add: sumOfWeights_sum_list)
  with a show "selectWeightedRandom rnd (Some items) w = (Some (fst (hd items)), w)"
    by (simp add: selectWeightedRandom_zero_sum)
next
  show "selectWeightedRandom rnd' (Some [(''a'', Some 0), (''b'', Some 0)]) w' = (Some ''a'', w')"
    by (simp add: selectWeightedRandom_def valid_weight_def)
qed

theorem selectWeightedRandom_zero_total_first_key_witness:
  "[(''x/x'', Some 0), (''y/y'', None), (''z/z'', Some (- 1))] \<noteq> [] \<and>
   sum_list (map (\<lambda>(k, v). if valid_weight v then the v else 0)
     [(''x/x'', Some 0), (''y/y'', None), (''z/z'', Some (- 1))]) = 0 \<and>
   selectWeightedRandom (\<lambda>n. draw_of (1 / 2))
     (Some [(''x/x'', Some 0), (''y/y'', None), (''z/z'', Some (- 1))])
     \<lparr>draws = 0, console = []\<rparr>
   = (Some ''x/x'', \<lparr>draws = 0, console = []\<rparr>)"
  using selectWeightedRandom_zero_total_first_key
    [of "[(''x/x'', Some 0), (''y/y'', None), (''z/z'', Some (- 1))]"
        "\<lambda>n. draw_of (1 / 2)" "\<lparr>draws = 0, console = []\<rparr>"]
  by (simp add: valid_weight_def)

text \<open>
  Claim C9. For a non-empty object \<^verbatim>\<open>selectWeightedRandom\<close> returns one of the keys of the
  object and never \<^verbatim>\<open>null\<close>, whatever the draw is; \<^verbatim>\<open>null\<close> is returned exactly when the
  argument is absent (or not an object) or is the empty object.
\<close>

theorem selectWeightedRandom_returns_key:
  "(items \<noteq> [] \<longrightarrow>
      (\<exists>k. fst (selectWeightedRandom rnd (Some items) w) = Some k \<and> k \<in> fst ` set items)) \<and>
   (fst (selectWeightedRandom rnd weightedItems w) = None
      \<longleftrightarrow> weightedItems = None \<or> weightedItems = Some [])"
proof (intro conjI impI)
  assume "items \<noteq> []"
  then show "\<exists>k. fst (selectWeightedRandom rnd (Some items) w) = Some k \<and> k \<in> fst ` set items"
    by (rule selectWeightedRandom_some_key)
next
  show "fst (selectWeightedRandom rnd weightedItems w) = None
      \<longleftrightarrow> weightedItems = None \<or> weightedItems = Some []"
  proof (cases weightedItems)
    case None
    then show ?thesis by (simp add: selectWeightedRandom_def)
  next
    case (Some items)
    show ?thesis
    proof (cases "items = []")
      case True
      with Some show ?thesis by (simp add: selectWeightedRandom_def)
    next
      case False
      with Some selectWeightedRandom_some_key [OF False, of rnd w] show ?thesis by auto
    qed
  qed
qed

theorem selectWeightedRandom_returns_key_witness:
  "[(''E/E'', Some 1), (''E/e'', Some 3)] \<noteq> [] \<and>
   (\<exists>k. fst (selectWeightedRandom (\<lambda>n. draw_of (1 / 2))
            (Some [(''E/E'', Some 1), (''E/e'', Some 3)]) \<lparr>draws = 0, console = []\<rparr>) = Some k \<and>
        k \<in> fst ` set [(''E/E'', Some 1), (''E/e'', Some (3 :: real))])"
  using selectWeightedRandom_returns_key
    [of "[(''E/E'', Some 1), (''E/e'', Some 3)]" "\<lambda>n. draw_of (1 / 2)"
        "\<lparr>draws = 0, console = []\<rparr>"]
  by simp

section \<open>Properties of the genotype generator\<close>

lemma map_of_set_prop:
  "map_of (set_prop k v obj) k' = (if k' = k then Some v else map_of obj k')"
  by (induction obj) auto

lemma map_of_del_prop:
  "map_of (del_prop k obj) k' = (if k' = k then None else map_of obj k')"
  by (induction obj) (auto simp: del_prop_def)

lemma gene_of_set_gene:
  "gene_of (set_gene k v g) k' = (if k' = k then Some v else gene_of g k')"
  by (simp add: gene_of_def set_gene_def map_of_set_prop)

lemma gene_of_set_modifier:
  "gene_of (set_modifier k b g) k' = (if k' = k then None else gene_of g k')"
  by (simp add: gene_of_def set_modifier_def map_of_del_prop)

lemma gene_of_empty: "gene_of empty_genotype k = None"
  by (simp add: gene_of_def empty_genotype_def)

lemma respects_empty: "respects_disallowed profile empty_genotype"
  by (simp add: respects_disallowed_def gene_of_empty)

lemma respects_set_gene:
  "respects_disallowed profile g \<Longrightarrow> \<not> is_disallowed profile k v \<Longrightarrow>
   respects_disallowed profile (set_gene k v g)"
  by (simp add: respects_disallowed_def gene_of_set_gene)

lemma respects_set_modifier:
  "respects_disallowed profile g \<Longrightarrow> respects_disallowed profile (set_modifier k b g)"
  by (simp add: respects_disallowed_def gene_of_set_modifier)

lemma gene_step_respects:
  "respects_disallowed profile (fst acc) \<Longrightarrow>
   respects_disallowed profile (fst (gene_step rnd profile entry acc))"
  by (cases entry; cases acc)
     (auto simp: gene_step_def Let_def respects_set_gene split: prod.splits)

lemma modifier_step_respects:
  "respects_disallowed profile (fst acc) \<Longrightarrow>
   respects_disallowed profile (fst (modifier_step rnd entry acc))"
  by (cases entry; cases acc)
     (auto simp: modifier_step_def Let_def respects_set_modifier split: prod.splits option.splits)

lemma fold_respects:
  assumes "\<And>x acc. respects_disallowed profile (fst acc) \<Longrightarrow> respects_disallowed profile (fst (f x acc))"
  shows "respects_disallowed profile (fst acc) \<Longrightarrow> respects_disallowed profile (fst (fold f xs acc))"
proof (induction xs arbitrary: acc)
  case Nil
  then show ?case by simp
next
  case (Cons x xs)
  from Cons.prems have "respects_disallowed profile (fst (f x acc))" by (rule assms)
  then have "respects_disallowed profile (fst (fold f xs (f x acc)))" by (rule Cons.IH)
  then show ?case by simp
qed

lemma generate_respects:
  "respects_disallowed profile (fst (generateStoreHorseGenetics rnd (Some profile) w))"
proof -
  let ?acc1 = "case allele_weights profile of
                    Some aw \<Rightarrow> fold (gene_step rnd profile) aw (empty_genotype, w)
                  | None \<Rightarrow> (empty_genotype, signal Warn_NoAlleleWeights w)"
  have 1: "respects_disallowed profile (fst ?acc1)"
    by (auto split: option.splits intro!: fold_respects gene_step_respects simp: respects_empty)
  show ?thesis
    unfolding generateStoreHorseGenetics_def Let_def
    using 1 by (auto split: option.splits intro!: fold_respects modifier_step_respects)
qed

text \<open>
  Claim C7. The genotype that \<^verbatim>\<open>generateStoreHorseGenetics\<close> returns never maps a locus to
  an allele pair listed in \<^verbatim>\<open>disallowed_combinations\<close> for that locus, for every profile
  and every random source. When the selection for a locus picks a disallowed pair, the
  step of that locus leaves the genotype as it was (the locus is not written and the
  selection is not repeated: the state is the one after that single selection) and adds
  a warning to the console.
\<close>

theorem generateStoreHorseGenetics_never_disallowed:
  "(generateStoreHorseGenetics rnd (Some profile) w = (g, w') \<and> gene_of g geneName = Some pair
      \<longrightarrow> \<not> is_disallowed profile geneName pair) \<and>
   (selectWeightedRandom rnd (Some weightedAlleles) w1 = (Some chosen, w2) \<and> chosen \<noteq> [] \<and>
    is_disallowed profile locus chosen
      \<longrightarrow> gene_step rnd profile (locus, weightedAlleles) (g1, w1)
            = (g1, signal (Warn_DisallowedPair chosen locus) w2))"
proof (intro conjI impI)
  assume a: "generateStoreHorseGenetics rnd (Some profile) w = (g, w') \<and> gene_of g geneName = Some pair"
  from generate_respects [of profile rnd w] a show "\<not> is_disallowed profile geneName pair"
    by (simp add: respects_disallowed_def)
next
  assume "selectWeightedRandom rnd (Some weightedAlleles) w1 = (Some chosen, w2) \<and> chosen \<noteq> [] \<and>
    is_disallowed profile locus chosen"
  then show "gene_step rnd profile (locus, weightedAlleles) (g1, w1)
            = (g1, signal (Warn_DisallowedPair chosen locus) w2)"
    by (simp add: gene_step_def truthy_def)
qed

theorem generateStoreHorseGenetics_never_disallowed_witness:
  "generateStoreHorseGenetics (\<lambda>n. draw_of (1 / 2))
     (Some \<lparr>allele_weights = Some [(''E_Extension'', [(''E/e'', Some 1)])],
            disallowed_combinations = Some [(''E_Extension'', [''e/e''])],
            allowed_alleles = None, boolean_modifiers_prevalence = None, shade_bias = None,
            marking_bias = None, advanced_markings_bias = None\<rparr>)
     \<lparr>draws = 0, console = []\<rparr>
   = (\<lparr>genes = [(''E_Extension'', ''E/e'')], modifiers = []\<rparr>,
      \<lparr>draws = 1, console = [Warn_NoPrevalence]\<rparr>) \<and>
   gene_of \<lparr>genes = [(''E_Extension'', ''E/e'')], modifiers = []\<rparr> ''E_Extension'' = Some ''E/e'' \<and>
   \<not> is_disallowed
       \<lparr>allele_weights = Some [(''E_Extension'', [(''E/e'', Some 1)])],
        disallowed_combinations = Some [(''E_Extension'', [''e/e''])],
        allowed_alleles = None, boolean_modifiers_prevalence = None, shade_bias = None,
        marking_bias = None, advanced_markings_bias = None\<rparr> ''E_Extension'' ''E/e'' \<and>
   selectWeightedRandom (\<lambda>n. draw_of (1 / 2)) (Some [(''e/e'', Some 1)])
     \<lparr>draws = 0, console = []\<rparr> = (Some ''e/e'', \<lparr>draws = 1, console = []\<rparr>) \<and>
   gene_step (\<lambda>n. draw_of (1 / 2))
     \<lparr>allele_weights = Some [(''E_Extension'', [(''E/e'', Some 1)])],
      disallowed_combinations = Some [(''E_Extension'', [''e/e''])],
      allowed_alleles = None, boolean_modifiers_prevalence = None, shade_bias = None,
      marking_bias = None, advanced_markings_bias = None\<rparr>
     (''E_Extension'', [(''e/e'', Some 1)]) (empty_genotype, \<lparr>draws = 0, console = []\<rparr>)
   = (empty_genotype, \<lparr>draws = 1, console = [Warn_DisallowedPair ''e/e'' ''E_Extension'']\<rparr>)"
  using generateStoreHorseGenetics_never_disallowed
    [of "\<lambda>n. draw_of (1 / 2)"
        "\<lparr>allele_weights = Some [(''E_Extension'', [(''E/e'', Some 1)])],
          disallowed_combinations = Some [(''E_Extension'', [''e/e''])],
          allowed_alleles = None, boolean_modifiers_prevalence = None, shade_bias = None,
          marking_bias = None, advanced_markings_bias = None\<rparr>"
        "\<lparr>draws = 0, console = []\<rparr>"
        "\<lparr>genes = [(''E_Extension'', ''E/e'')], modifiers = []\<rparr>"
        "\<lparr>draws = 1, console = [Warn_NoPrevalence]\<rparr>"
        "''E_Extension''" "''E/e''" "[(''e/e'', Some 1)]" "\<lparr>draws = 0, console = []\<rparr>"
        "''e/e''" "\<lparr>draws = 1, console = []\<rparr>" "''E_Extension''" empty_genotype]
  by (simp add: generateStoreHorseGenetics_def gene_step_def selectWeightedRandom_def
      valid_weight_def Math_random_def draw_of_inverse truthy_def is_disallowed_def
      set_gene_def del_prop_def empty_genotype_def signal_def gene_of_def)

section \<open>Properties of the inheritance calculator\<close>

lemma prop_of_gene: "gene_of g k = Some s \<Longrightarrow> prop_of g k = Some (Str s)"
  by (simp add: prop_of_def gene_of_def)


lemma gene_of_set_value:
  "gene_of (set_value k v g) k' =
   (if k' = k then (case v of Str s \<Rightarrow> Some s | Bool b \<Rightarrow> None) else gene_of g k')"
  by (cases v) (simp_all add: set_value_def gene_of_set_gene gene_of_set_modifier)

lemma is_disallowed_iff: "is_disallowed profile gene pair \<longleftrightarrow> pair \<in> set (disallowedForFoal profile gene)"
  by (simp add: is_disallowed_def disallowedForFoal_def split: option.splits)








lemma draw_index_less: "xs \<noteq> [] \<Longrightarrow> nat \<lfloor>draw_value r * real (length xs)\<rfloor> < length xs"
proof -
  assume a: "xs \<noteq> []"
  have "0 \<le> draw_value r" "draw_value r < 1" using draw_value [of r] by auto
  then have "draw_value r * real (length xs) < real (length xs)"
    and "0 \<le> draw_value r * real (length xs)" using a by simp_all
  then show ?thesis
    by (metis floor_less_iff nat_less_iff of_int_of_nat_eq zero_le_floor)
qed

lemma getParentAllele_ee:
  "getParentAllele rnd (Some (Str ''e/e'')) w = (Some ''e'', w\<lparr>draws := Suc (draws w)\<rparr>)"
proof -
  have "nat \<lfloor>draw_value (rnd (draws w)) * real (length [''e'', ''e''])\<rfloor> < length [''e'', ''e'']"
    by (rule draw_index_less) simp
  then have "[''e'', ''e''] ! nat \<lfloor>draw_value (rnd (draws w)) * 2\<rfloor> = ''e''"
    by (auto simp: less_Suc_eq numeral_2_eq_2)
  then show ?thesis
    by (simp add: getParentAllele_def Math_random_def)
qed

lemma combineAlleles_ee: "combineAlleles (Some ''e'') (Some ''e'') = Some ''e/e''"
  by (simp add: combineAlleles_def recessiveLikes_def toLowerCase_def lower_char_def
      orderPreservingGenes_def dominantLike_def)

lemma sample_loop_ee:
  assumes "allowed_alleles profile = Some al" "map_of al ''E_Extension'' = Some [''e/e'']"
    and "\<not> is_disallowed profile ''E_Extension'' ''e/e''"
  shows "sample_loop rnd profile ''E_Extension'' (Some (Str ''e/e'')) (Some (Str ''e/e'')) 0 w
         = (Some ''e/e'', w\<lparr>draws := Suc (Suc (draws w))\<rparr>)"
  using assms
  by (subst sample_loop.simps)
     (simp add: MAX_ATTEMPTS_def getParentAllele_ee combineAlleles_ee truthy_def
        allowedForFoal_loop_def is_disallowed_iff)

lemma gene_of_fallback_default:
  "k \<noteq> gene \<Longrightarrow> gene_of (fst (fallback_default profile gene acc)) k = gene_of (fst acc) k"
  by (cases acc) (simp add: fallback_default_def Let_def gene_of_set_gene)

lemma gene_of_fallback_step:
  "k \<noteq> gene \<Longrightarrow> gene_of (fst (fallback_step rnd profile gene acc)) k = gene_of (fst acc) k"
  by (cases acc)
     (auto simp: fallback_step_def Let_def gene_of_set_gene gene_of_fallback_default
           split: option.splits prod.splits)

lemma gene_of_inherit_step_other:
  "k \<noteq> gene \<Longrightarrow>
   gene_of (fst (inherit_step rnd sire dam profile gene acc)) k = gene_of (fst acc) k"
  by (cases acc)
     (auto simp: inherit_step_def Let_def gene_of_set_gene gene_of_fallback_step
           split: prod.splits)

lemma gene_of_inherit_step_ee:
  assumes "gene_of sire ''E_Extension'' = Some ''e/e''" "gene_of dam ''E_Extension'' = Some ''e/e''"
    and "allowed_alleles profile = Some al" "map_of al ''E_Extension'' = Some [''e/e'']"
    and "\<not> is_disallowed profile ''E_Extension'' ''e/e''"
  shows "gene_of (fst (inherit_step rnd sire dam profile ''E_Extension'' acc)) ''E_Extension''
         = Some ''e/e''"
  using prop_of_gene [OF assms(1)] prop_of_gene [OF assms(2)] sample_loop_ee [OF assms(3,4,5)]
  by (cases acc) (simp add: inherit_step_def Let_def truthy_def truthy_val_def gene_of_set_gene)

lemma gene_of_inherit_modifier:
  "k \<notin> set booleanModifiers \<Longrightarrow>
   gene_of (fst (inherit_modifier rnd sire dam entry acc)) k = gene_of (fst acc) k"
  by (cases entry; cases acc)
     (auto simp: inherit_modifier_def Let_def gene_of_set_modifier gene_of_set_value
           split: prod.splits option.splits)

lemma gene_of_fold_inherit_modifier:
  "k \<notin> set booleanModifiers \<Longrightarrow>
   gene_of (fst (fold (inherit_modifier rnd sire dam) bm acc)) k = gene_of (fst acc) k"
  by (induction bm arbitrary: acc) (simp_all add: gene_of_inherit_modifier)

lemma fold_inherit_step_ee:
  assumes "gene_of sire ''E_Extension'' = Some ''e/e''" "gene_of dam ''E_Extension'' = Some ''e/e''"
    and "allowed_alleles profile = Some al" "map_of al ''E_Extension'' = Some [''e/e'']"
    and "\<not> is_disallowed profile ''E_Extension'' ''e/e''"
  shows "''E_Extension'' \<in> set gs \<or> gene_of (fst acc) ''E_Extension'' = Some ''e/e'' \<Longrightarrow>
         gene_of (fst (fold (inherit_step rnd sire dam profile) gs acc)) ''E_Extension''
         = Some ''e/e''"
proof (induction gs arbitrary: acc)
  case Nil
  then show ?case by simp
next
  case (Cons gene gs)
  show ?case
  proof (cases "gene = ''E_Extension''")
    case True
    have "gene_of (fst (inherit_step rnd sire dam profile gene acc)) ''E_Extension'' = Some ''e/e''"
      unfolding True by (rule gene_of_inherit_step_ee [OF assms])
    then show ?thesis using Cons.IH by simp
  next
    case False
    then have "gene_of (fst (inherit_step rnd sire dam profile gene acc)) ''E_Extension''
               = gene_of (fst acc) ''E_Extension''"
      by (simp add: gene_of_inherit_step_other)
    with False Cons.prems Cons.IH [of "inherit_step rnd sire dam profile gene acc"]
    show ?thesis by auto
  qed
qed




text \<open>
  Claim C3, as the specification states it: with \<^verbatim>\<open>'e/e'\<close> at \<^verbatim>\<open>E_Extension\<close> in both
  parents and \<^verbatim>\<open>allowed_alleles.E_Extension = ['e/e']\<close>, the foal's \<^verbatim>\<open>E_Extension\<close> is
  \<^verbatim>\<open>'e/e'\<close> on every draw. It fails for a profile that also lists \<^verbatim>\<open>'e/e'\<close> in
  \<^verbatim>\<open>disallowed_combinations.E_Extension\<close>: all ten attempts are rejected, and the fallback
  draws from \<^verbatim>\<open>allele_weights\<close>, here \<^verbatim>\<open>'E/e'\<close>.
\<close>

theorem calculateFoalGenetics_ee_counterexample:
  "gene_of \<lparr>genes = [(''E_Extension'', ''e/e'')], modifiers = []\<rparr> ''E_Extension'' = Some ''e/e'' \<and>
   map_of [(''E_Extension'', [''e/e''])] ''E_Extension'' = Some [''e/e''] \<and>
   gene_of (fst (calculateFoalGenetics (\<lambda>n. draw_of 0)
      (Some \<lparr>genes = [(''E_Extension'', ''e/e'')], modifiers = []\<rparr>)
      (Some \<lparr>genes = [(''E_Extension'', ''e/e'')], modifiers = []\<rparr>)
      (Some \<lparr>allele_weights = Some [(''E_Extension'', [(''E/e'', Some 1)])],
             disallowed_combinations = Some [(''E_Extension'', [''e/e''])],
             allowed_alleles = Some [(''E_Extension'', [''e/e''])],
             boolean_modifiers_prevalence = None, shade_bias = None, marking_bias = None,
             advanced_markings_bias = None\<rparr>)
      \<lparr>draws = 0, console = []\<rparr>)) ''E_Extension'' = Some ''E/e''"
proof -
  let ?p = "\<lparr>allele_weights = Some [(''E_Extension'', [(''E/e'', Some 1)])],
             disallowed_combinations = Some [(''E_Extension'', [''e/e''])],
             allowed_alleles = Some [(''E_Extension'', [''e/e''])],
             boolean_modifiers_prevalence = None, shade_bias = None, marking_bias = None,
             advanced_markings_bias = None\<rparr>"
  have step: "\<And>n w. n < MAX_ATTEMPTS \<Longrightarrow>
     sample_loop (\<lambda>n. draw_of 0) ?p ''E_Extension'' (Some (Str ''e/e''))
       (Some (Str ''e/e'')) n w
     = sample_loop (\<lambda>n. draw_of 0) ?p ''E_Extension'' (Some (Str ''e/e''))
       (Some (Str ''e/e'')) (Suc n)
         (w\<lparr>draws := Suc (Suc (draws w))\<rparr>)"
    by (subst sample_loop.simps)
       (simp add: getParentAllele_ee combineAlleles_ee truthy_def
          allowedForFoal_loop_def disallowedForFoal_def Let_def)
  have stop: "\<And>w. sample_loop (\<lambda>n. draw_of 0) ?p ''E_Extension'' (Some (Str ''e/e''))
       (Some (Str ''e/e''))
       MAX_ATTEMPTS w = (None, w)"
    by (subst sample_loop.simps) simp
  have exhaust: "MAX_ATTEMPTS - n = k \<Longrightarrow>
     fst (sample_loop (\<lambda>n. draw_of 0) ?p ''E_Extension'' (Some (Str ''e/e''))
       (Some (Str ''e/e'')) n w) = None"
    for n k w
  proof (induction k arbitrary: n w)
    case 0
    then have "\<not> n < MAX_ATTEMPTS" by simp
    then show ?case by (subst sample_loop.simps) simp
  next
    case (Suc k)
    then have "n < MAX_ATTEMPTS" and "MAX_ATTEMPTS - Suc n = k" by simp_all
    then show ?case using Suc.IH [of "Suc n"] by (simp add: step)
  qed
  obtain w1 where loop:
    "sample_loop (\<lambda>n. draw_of 0) ?p ''E_Extension'' (Some (Str ''e/e''))
       (Some (Str ''e/e'')) 0
       \<lparr>draws = 0, console = []\<rparr> = (None, w1)"
    using exhaust [of 0 MAX_ATTEMPTS "\<lparr>draws = 0, console = []\<rparr>"]
    by (cases "sample_loop (\<lambda>n. draw_of 0) ?p ''E_Extension'' (Some (Str ''e/e''))
       (Some (Str ''e/e'')) 0
       \<lparr>draws = 0, console = []\<rparr>") simp
  show ?thesis
    by (simp add: calculateFoalGenetics_def genesToInherit_def inherit_step_def gene_of_def
        prop_of_def truthy_def truthy_val_def loop fallback_step_def selectWeightedRandom_def
        valid_weight_def Math_random_def draw_of_inverse disallowedForFoal_def set_gene_def
        del_prop_def empty_genotype_def)
qed

text \<open>
  Claim C3, amended: with \<^verbatim>\<open>'e/e'\<close> at \<^verbatim>\<open>E_Extension\<close> in both parents, a profile with
  \<^verbatim>\<open>allowed_alleles.E_Extension = ['e/e']\<close> that does not list \<^verbatim>\<open>'e/e'\<close> in
  \<^verbatim>\<open>disallowed_combinations.E_Extension\<close>, and any random source,
  \<^verbatim>\<open>calculateFoalGenetics\<close> gives the foal \<^verbatim>\<open>'e/e'\<close> at \<^verbatim>\<open>E_Extension\<close>.
\<close>

theorem calculateFoalGenetics_ee_unless_disallowed:
  assumes "gene_of sire ''E_Extension'' = Some ''e/e''" "gene_of dam ''E_Extension'' = Some ''e/e''"
    and "allowed_alleles profile = Some al" "map_of al ''E_Extension'' = Some [''e/e'']"
    and "\<not> is_disallowed profile ''E_Extension'' ''e/e''"
  shows "gene_of (fst (calculateFoalGenetics rnd (Some sire) (Some dam) (Some profile) w))
           ''E_Extension'' = Some ''e/e''"
proof -
  have mem: "''E_Extension'' \<in> set (genesToInherit sire dam profile)"
    using assms(3,4) by (auto simp: genesToInherit_def dest: map_of_SomeD intro: rev_image_eqI)
  have 1: "gene_of (fst (fold (inherit_step rnd sire dam profile)
             (genesToInherit sire dam profile) (empty_genotype, w))) ''E_Extension'' = Some ''e/e''"
    by (rule fold_inherit_step_ee [OF assms]) (simp add: mem)
  have nb: "''E_Extension'' \<notin> set booleanModifiers"
    by (simp add: booleanModifiers_def)
  show ?thesis
    using 1 by (simp add: calculateFoalGenetics_def Let_def gene_of_fold_inherit_modifier [OF nb]
        split: option.splits)
qed

theorem calculateFoalGenetics_ee_unless_disallowed_witness:
  "gene_of \<lparr>genes = [(''E_Extension'', ''e/e'')], modifiers = []\<rparr> ''E_Extension'' = Some ''e/e'' \<and>
   allowed_alleles
     \<lparr>allele_weights = Some [(''E_Extension'', [(''e/e'', Some 1)])],
      disallowed_combinations = Some [],
      allowed_alleles = Some [(''E_Extension'', [''e/e''])],
      boolean_modifiers_prevalence = None, shade_bias = None, marking_bias = None,
      advanced_markings_bias = None\<rparr> = Some [(''E_Extension'', [''e/e''])] \<and>
   map_of [(''E_Extension'', [''e/e''])] ''E_Extension'' = Some [''e/e''] \<and>
   \<not> is_disallowed
       \<lparr>allele_weights = Some [(''E_Extension'', [(''e/e'', Some 1)])],
        disallowed_combinations = Some [],
        allowed_alleles = Some [(''E_Extension'', [''e/e''])],
        boolean_modifiers_prevalence = None, shade_bias = None, marking_bias = None,
        advanced_markings_bias = None\<rparr> ''E_Extension'' ''e/e'' \<and>
   gene_of (fst (calculateFoalGenetics (\<lambda>n. draw_of (1 / 2))
      (Some \<lparr>genes = [(''E_Extension'', ''e/e'')], modifiers = []\<rparr>)
      (Some \<lparr>genes = [(''E_Extension'', ''e/e'')], modifiers = []\<rparr>)
      (Some \<lparr>allele_weights = Some [(''E_Extension'', [(''e/e'', Some 1)])],
             disallowed_combinations = Some [],
             allowed_alleles = Some [(''E_Extension'', [''e/e''])],
             boolean_modifiers_prevalence = None, shade_bias = None, marking_bias = None,
             advanced_markings_bias = None\<rparr>)
      \<lparr>draws = 0, console = []\<rparr>)) ''E_Extension'' = Some ''e/e''"
  using calculateFoalGenetics_ee_unless_disallowed
    [of "\<lparr>genes = [(''E_Extension'', ''e/e'')], modifiers = []\<rparr>"
        "\<lparr>genes = [(''E_Extension'', ''e/e'')], modifiers = []\<rparr>"
        "\<lparr>allele_weights = Some [(''E_Extension'', [(''e/e'', Some 1)])],
          disallowed_combinations = Some [],
          allowed_alleles = Some [(''E_Extension'', [''e/e''])],
          boolean_modifiers_prevalence = None, shade_bias = None, marking_bias = None,
          advanced_markings_bias = None\<rparr>"
        "[(''E_Extension'', [''e/e''])]" "\<lambda>n. draw_of (1 / 2)" "\<lparr>draws = 0, console = []\<rparr>"]
  by (simp add: gene_of_def is_disallowed_def)

section \<open>Properties of the phenotype resolver\<close>

subsection \<open>Steps that throw and steps that return\<close>

lemma and_then_Inr [simp]: "and_then (Inr x) f = f x"
  by (simp add: and_then_def)

lemma and_then_Inl [simp]: "and_then (Inl e) f = Inl e"
  by (simp add: and_then_def)

lemma and_then_eq_Inr: "and_then m f = Inr y \<longleftrightarrow> (\<exists>x. m = Inr x \<and> f x = Inr y)"
  by (cases m) simp_all

lemma and_then_returns:
  "\<exists>x. m = Inr x \<Longrightarrow> (\<And>x. \<exists>y. f x = Inr y) \<Longrightarrow> \<exists>y. and_then m f = Inr y"
  by auto

lemma no_locus_true_locus:
  "no_locus_true g \<Longrightarrow> k \<in> set method_loci \<Longrightarrow> prop_of g k \<noteq> Some (Bool True)"
  by (simp add: no_locus_true_def list_all_iff)

lemma getAlleles_returns:
  "prop_of g k \<noteq> Some (Bool True) \<Longrightarrow> \<exists>x. getAlleles g k = Inr x"
  by (auto simp: getAlleles_def truthy_val_def str_receiver_def split: option.splits jsval.splits)

lemma hasAllele_returns:
  "prop_of g k \<noteq> Some (Bool True) \<Longrightarrow> \<exists>x. hasAllele g k a = Inr x"
  by (auto simp: hasAllele_def truthy_val_def str_receiver_def split: option.splits jsval.splits)

lemma isHomozygous_returns:
  "prop_of g k \<noteq> Some (Bool True) \<Longrightarrow> \<exists>x. isHomozygous g k a = Inr x"
  using getAlleles_returns [of g k] by (auto simp: isHomozygous_def)

lemma isHeterozygous_returns:
  "prop_of g k \<noteq> Some (Bool True) \<Longrightarrow> \<exists>x. isHeterozygous g k a b = Inr x"
  using getAlleles_returns [of g k] by (auto simp: isHeterozygous_def)

lemma white_alleles_return:
  "prop_of g ''W_DominantWhite'' \<noteq> Some (Bool True) \<Longrightarrow> \<exists>x. getDominantWhiteAlleles g = Inr x"
  "prop_of g ''SW_SplashWhite'' \<noteq> Some (Bool True) \<Longrightarrow> \<exists>x. getSplashWhiteAlleles g = Inr x"
  "prop_of g ''EDXW'' \<noteq> Some (Bool True) \<Longrightarrow> \<exists>x. getEdenWhiteAlleles g = Inr x"
  using getAlleles_returns [of g "''W_DominantWhite''"] getAlleles_returns [of g "''SW_SplashWhite''"]
    getAlleles_returns [of g "''EDXW''"]
  by (auto simp: getDominantWhiteAlleles_def getSplashWhiteAlleles_def getEdenWhiteAlleles_def)

lemma locus_facts:
  assumes "no_locus_true g"
  shows "prop_of g ''E_Extension'' \<noteq> Some (Bool True)"
    "prop_of g ''A_Agouti'' \<noteq> Some (Bool True)"
    "prop_of g ''MFSD12_Mushroom'' \<noteq> Some (Bool True)"
    "prop_of g ''Cr_Cream'' \<noteq> Some (Bool True)"
    "prop_of g ''D_Dun'' \<noteq> Some (Bool True)"
    "prop_of g ''CH_Champagne'' \<noteq> Some (Bool True)"
    "prop_of g ''Z_Silver'' \<noteq> Some (Bool True)"
    "prop_of g ''Rn_Roan'' \<noteq> Some (Bool True)"
    "prop_of g ''W_DominantWhite'' \<noteq> Some (Bool True)"
    "prop_of g ''O_FrameOvero'' \<noteq> Some (Bool True)"
    "prop_of g ''TO_Tobiano'' \<noteq> Some (Bool True)"
    "prop_of g ''SB1_Sabino1'' \<noteq> Some (Bool True)"
    "prop_of g ''SW_SplashWhite'' \<noteq> Some (Bool True)"
    "prop_of g ''EDXW'' \<noteq> Some (Bool True)"
    "prop_of g ''LP_LeopardComplex'' \<noteq> Some (Bool True)"
    "prop_of g ''PATN1_Pattern1'' \<noteq> Some (Bool True)"
    "prop_of g ''G_Gray'' \<noteq> Some (Bool True)"
  using assms by (simp_all add: no_locus_true_def method_loci_def)

lemmas reads_return = hasAllele_returns isHomozygous_returns isHeterozygous_returns
  white_alleles_return

lemma Inr_returns: "\<exists>y. Inr x = Inr y"
  by simp

lemma if_returns:
  "(c \<Longrightarrow> \<exists>y. a = Inr y) \<Longrightarrow> (\<not> c \<Longrightarrow> \<exists>y. b = Inr y) \<Longrightarrow> \<exists>y. (if c then a else b) = Inr y"
  by simp

lemma stages_return:
  assumes "no_locus_true g"
  shows "\<exists>l'. base_stage g l = Inr l'"
    "\<exists>l'. mushroom_stage g l = Inr l'"
    "\<exists>l'. mushroom_pearl_stage g l = Inr l'"
    "\<exists>l'. cream_stage g l = Inr l'"
    "\<exists>l'. dun_stage g l = Inr l'"
    "\<exists>lw'. champagne_stage g lw = Inr lw'"
    "\<exists>l'. silver_stage g l = Inr l'"
    "\<exists>l'. roan_stage g l = Inr l'"
    "\<exists>l'. white_stage g l = Inr l'"
    "\<exists>l'. patterns_stage g l = Inr l'"
    "\<exists>lw'. leopard_stage rnd p age g lw = Inr lw'"
    "\<exists>lw'. gray_stage rnd p age g lw = Inr lw'"
  unfolding base_stage_def mushroom_stage_def mushroom_pearl_stage_def cream_stage_def
    dun_stage_def champagne_stage_def silver_stage_def roan_stage_def white_stage_def
    patterns_stage_def leopard_stage_def gray_stage_def
  by (intro and_then_returns if_returns Inr_returns reads_return locus_facts [OF assms])+

subsection \<open>What each step leaves unchanged\<close>

lemma if_base: "baseColor (if c then a else b) = (if c then baseColor a else baseColor b)"
  by simp

lemma if_chestnut:
  "isChestnutBase (if c then a else b) = (if c then isChestnutBase a else isChestnutBase b)"
  by simp

lemma if_white:
  "isAllWhiteFromDominant (if c then a else b)
   = (if c then isAllWhiteFromDominant a else isAllWhiteFromDominant b)"
  by simp

lemma if_shade: "shade (if c then a else b) = (if c then shade a else shade b)"
  by simp

lemma if_marks: "marks (if c then a else b) = (if c then marks a else marks b)"
  by simp

lemmas if_fields = if_base if_chestnut if_white if_shade if_marks

lemma frame_refl [simp]: "frame l l"
  by (simp add: frame_def)

lemma frame_trans: "frame a b \<Longrightarrow> frame b c \<Longrightarrow> frame a c"
  by (simp add: frame_def)

lemma frame_dilutions:
  "frame l (single_cream l)"
  "frame l (double_cream l)"
  "frame l (dun_dilution l)"
  "frame l (silver_dilution l)"
  "frame l (pearl_stage g l)"
  by (simp_all add: frame_def single_cream_def double_cream_def set_colour_def dun_dilution_def
      silver_dilution_def pearl_stage_def if_fields Let_def split del: if_split cong: if_cong)

lemma frame_modifiers:
  "frame l (apply_shade l)"
  "frame l (sooty_stage g l)"
  "frame l (init_parts l)"
  "frame l (flaxen_stage g l)"
  "frame l (pangare_stage g l)"
  "frame l (roan_pattern l)"
  "frame l (spotting_patterns a b c d e l)"
  "frame l (rabicano_stage g l)"
  "frame l (dun_primitive_stage l)"
  "frame l (dedupe_stage l)"
  "frame l (reorder_stage l)"
  by (simp_all add: frame_def apply_shade_def sooty_stage_def init_parts_def flaxen_stage_def
      pangare_stage_def roan_pattern_def spotting_patterns_def rabicano_stage_def
      dun_primitive_stage_def dedupe_stage_def reorder_stage_def push_def if_fields Let_def
      split del: if_split cong: if_cong)
     auto

lemma champagne_dilution_frame:
  "frame (fst lw) (fst (champagne_dilution a b c lw))"
  "snd (champagne_dilution a b c lw) = snd lw"
  by (cases a; cases b; cases c;
      simp add: frame_def champagne_dilution_def champagne_by_base_def set_colour_def
        case_prod_beta truthy_def)+

lemma frame_stages:
  "mushroom_stage g l = Inr l' \<Longrightarrow> frame l l'"
  "mushroom_pearl_stage g l = Inr l' \<Longrightarrow> frame l l'"
  "cream_stage g l = Inr l' \<Longrightarrow> frame l l'"
  "dun_stage g l = Inr l' \<Longrightarrow> frame l l'"
  "silver_stage g l = Inr l' \<Longrightarrow> frame l l'"
  "roan_stage g l = Inr l' \<Longrightarrow> frame l l'"
  "patterns_stage g l = Inr l' \<Longrightarrow> frame l l'"
  by (auto simp: mushroom_stage_def mushroom_pearl_stage_def cream_stage_def dun_stage_def
      silver_stage_def roan_stage_def patterns_stage_def and_then_eq_Inr frame_dilutions
      frame_modifiers split: if_splits)
     (simp_all add: frame_def)

lemma champagne_stage_frame:
  "champagne_stage g lw = Inr lw' \<Longrightarrow> frame (fst lw) (fst lw') \<and> snd lw' = snd lw"
  by (auto simp: champagne_stage_def and_then_eq_Inr champagne_dilution_frame split: if_splits)

subsection \<open>The steps in sequence\<close>

text \<open>The steps that a call went through when it returned, and the calls that return.\<close>

lemma resolveE:
  assumes "resolve rnd g p age w = Inr (ph, w')"
  obtains l1 l2 l3 l4 l5 l6 w6 l7 l8 w8 l9 l10 l11 l12 l13 w13 l14 w14 l15 l16 where
    "base_stage g initial_locals = Inr l1"
    "mushroom_stage g l1 = Inr l2"
    "mushroom_pearl_stage g l2 = Inr l3"
    "cream_stage g l3 = Inr l4"
    "dun_stage g l4 = Inr l5"
    "champagne_stage g (l5, w) = Inr (l6, w6)"
    "silver_stage g l6 = Inr l7"
    "l8 = fst (shade_stage rnd p (pearl_stage g l7, w6))"
    "w8 = snd (shade_stage rnd p (pearl_stage g l7, w6))"
    "l9 = pangare_stage g (flaxen_stage g (init_parts (sooty_stage g (apply_shade l8))))"
    "roan_stage g l9 = Inr l10"
    "white_stage g l10 = Inr l11"
    "patterns_stage g l11 = Inr l12"
    "leopard_stage rnd p age g (l12, w8) = Inr (l13, w13)"
    "gray_stage rnd p age g (l13, w13) = Inr (l14, w14)"
    "l15 = reorder_stage (dedupe_stage (dun_primitive_stage (rabicano_stage g l14)))"
    "l16 = fst (markings_stage rnd p (l15, w14))"
    "w' = snd (markings_stage rnd p (l15, w14))"
    "ph = \<lparr>final_display_color = assemble l15, phenotypic_markings = marks l16,
           determined_shade = the (shade l16)\<rparr>"
  using assms unfolding resolve_def
  by (auto simp: and_then_eq_Inr Let_def case_prod_beta)

lemma resolve_returns:
  assumes "no_locus_true g"
  shows "\<exists>ph w'. resolve rnd g p age w = Inr (ph, w')"
proof -
  have "\<exists>y. resolve rnd g p age w = Inr y"
    unfolding resolve_def Let_def case_prod_beta
    by (intro and_then_returns Inr_returns stages_return [OF assms])
  then show ?thesis by auto
qed

subsection \<open>Base colour\<close>

lemma pair_list_iff: "(length xs = 2 \<and> xs ! 0 = a \<and> xs ! 1 = b) \<longleftrightarrow> xs = [a, b]"
  by (cases xs; cases "tl xs") auto


lemma getAlleles_Inr:
  "getAlleles g k = Inr xs \<Longrightarrow>
   xs = (case gene_of g k of
           None \<Rightarrow> []
         | Some pair \<Rightarrow> if pair = [] then [] else str_split CHR ''/'' pair)"
  by (auto simp: getAlleles_def str_receiver_def truthy_val_def prop_of_def gene_of_def
      split: if_splits option.splits jsval.splits)

lemma isHomozygous_Inr:
  assumes "isHomozygous g k a = Inr b"
  shows "b = (case gene_of g k of None \<Rightarrow> False | Some pair \<Rightarrow> str_split CHR ''/'' pair = [a, a])"
proof -
  from assms obtain xs where xs: "getAlleles g k = Inr xs" and b: "b = (xs = [a, a])"
    by (auto simp: isHomozygous_def and_then_eq_Inr pair_list_iff [symmetric])
  show ?thesis
  proof (cases "gene_of g k")
    case None
    with getAlleles_Inr [OF xs] b show ?thesis by simp
  next
    case (Some pair)
    with getAlleles_Inr [OF xs] b show ?thesis by (cases "pair = []") simp_all
  qed
qed

lemma hasAllele_Inr:
  "hasAllele g k a = Inr b \<Longrightarrow> a \<noteq> [] \<Longrightarrow>
   b = (case gene_of g k of None \<Rightarrow> False | Some pair \<Rightarrow> str_includes pair a)"
  by (auto simp: hasAllele_def str_receiver_def truthy_val_def prop_of_def gene_of_def
      split: if_splits option.splits jsval.splits)

lemma base_stage_colour:
  assumes "base_stage g l = Inr l'"
  shows "baseColor l' = base_colour g \<and> isAllWhiteFromDominant l' = isAllWhiteFromDominant l \<and>
         shade l' = shade l \<and> marks l' = marks l"
proof -
  from assms obtain c where c: "isHomozygous g ''E_Extension'' ''e'' = Inr c"
    by (auto simp: base_stage_def and_then_eq_Inr)
  note c' = isHomozygous_Inr [OF c]
  show ?thesis
  proof (cases c)
    case True
    with assms c c' show ?thesis
      by (auto simp: base_stage_def base_colour_def)
  next
    case False
    with assms c obtain a where a: "hasAllele g ''A_Agouti'' ''A'' = Inr a"
      by (auto simp: base_stage_def and_then_eq_Inr)
    from hasAllele_Inr [OF a] have a': "a = (case gene_of g ''A_Agouti'' of
         None \<Rightarrow> False | Some pair \<Rightarrow> str_includes pair ''A'')" by simp
    from False assms c a have "l' = (if a then l\<lparr>baseColor := ''Bay'', phenotypeKeyForShade := ''Bay''\<rparr>
         else l\<lparr>baseColor := ''Black'', phenotypeKeyForShade := ''Black''\<rparr>)"
      by (auto simp: base_stage_def)
    with False c' a' show ?thesis
      by (simp add: base_colour_def)
  qed
qed

subsection \<open>Evaluation rules and facts about strings\<close>

lemmas str_eval = toLowerCase_def lower_char_def upper_char_def endsWith_def is_space_def
  str_trim_def startsWith_ci_def capitalizeFirstLetter_def or_else_def some_gray_def
  joined_includes_def truthy_def

lemmas read_eval = prop_of_def truthy_val_def str_receiver_def hasAllele_def getAlleles_def
  isHomozygous_def isHeterozygous_def getDominantWhiteAlleles_def getSplashWhiteAlleles_def
  getEdenWhiteAlleles_def

lemmas pattern_eval = apply_shade_def shadeLower_def sooty_stage_def init_parts_def push_def
  flaxen_stage_def pangare_stage_def roan_pattern_def roan_stage_def dominant_white_def
  white_stage_def spotting_patterns_def patterns_stage_def push_term_def leopard_pattern_def
  leopard_stage_def gray_colour_def gray_stage_def rabicano_stage_def dun_primitive_stage_def
  dedupe_step_def dedupe_stage_def is_main_candidate_def reorder_stage_def assemble_def





subsection \<open>Dominant white\<close>


lemma dominant_white_alleles:
  assumes "getDominantWhiteAlleles g = Inr ws"
  shows "list_ex (\<lambda>a. a \<in> set lethalWhite) ws \<longleftrightarrow> carries_lethal_white g"
proof
  assume "list_ex (\<lambda>a. a \<in> set lethalWhite) ws"
  then obtain a where a: "a \<in> set ws" "a \<in> set lethalWhite"
    by (auto simp: list_ex_iff)
  from assms a(1) obtain xs where xs: "getAlleles g ''W_DominantWhite'' = Inr xs" "a \<in> set xs"
    by (auto simp: getDominantWhiteAlleles_def and_then_eq_Inr split: if_splits)
  from getAlleles_Inr [OF xs(1)] xs(2) have "carries g ''W_DominantWhite'' a"
    by (auto simp: carries_def split: option.splits if_splits)
  with a(2) show "carries_lethal_white g"
    by (auto simp: carries_lethal_white_def list_ex_iff)
next
  assume "carries_lethal_white g"
  then obtain a pair where a: "a \<in> set lethalWhite" "gene_of g ''W_DominantWhite'' = Some pair"
    "a \<in> set (str_split CHR ''/'' pair)"
    by (auto simp: carries_lethal_white_def carries_def list_ex_iff split: option.splits)
  have ne: "pair \<noteq> []" using a(1,3) by (auto simp: lethalWhite_def)
  have nw: "pair \<noteq> ''w/w''" using a(1,3) by (auto simp: lethalWhite_def)
  have "startsWith a ''W'' \<and> a \<noteq> ''w''" using a(1) by (auto simp: lethalWhite_def)
  with a ne nw prop_of_gene [OF a(2)] assms have "a \<in> set ws"
    by (auto simp: getDominantWhiteAlleles_def getAlleles_def truthy_val_def str_receiver_def)
  with a(1) show "list_ex (\<lambda>a. a \<in> set lethalWhite) ws"
    by (auto simp: list_ex_iff)
qed


lemma white_stage_kept:
  assumes "white_stage g l = Inr l'"
  shows "baseColor l' = baseColor l \<and> shade l' = shade l \<and> marks l' = marks l \<and>
         (\<not> carries_lethal_white g \<longrightarrow> isAllWhiteFromDominant l' = isAllWhiteFromDominant l)"
proof -
  from assms obtain ws where ws: "getDominantWhiteAlleles g = Inr ws"
    and l': "l' = dominant_white ws l"
    by (auto simp: white_stage_def and_then_eq_Inr)
  show ?thesis
    unfolding l' using dominant_white_alleles [OF ws]
    by (simp add: dominant_white_def push_def)
qed


subsection \<open>The end of the pipeline on a single part\<close>


subsection \<open>Leopard complex, gray and shade\<close>

lemma selectWeightedRandom_console:
  "items \<noteq> [] \<Longrightarrow>
   console (snd (selectWeightedRandom rnd (Some items) w)) = console w"
  by (cases items)
     (simp_all add: selectWeightedRandom_def Math_random_def Let_def split: option.splits)

lemma leopard_pattern_kept:
  "baseColor (fst (leopard_pattern rnd p age g a b lw)) = baseColor (fst lw)"
  "isAllWhiteFromDominant (fst (leopard_pattern rnd p age g a b lw))
   = isAllWhiteFromDominant (fst lw)"
  "shade (fst (leopard_pattern rnd p age g a b lw)) = shade (fst lw)"
  "face_marking (marks (fst (leopard_pattern rnd p age g a b lw))) = face_marking (marks (fst lw))"
  "leg_markings (marks (fst (leopard_pattern rnd p age g a b lw))) = leg_markings (marks (fst lw))"
  by (simp_all add: leopard_pattern_def push_def case_prod_beta if_fields Let_def
      if_distrib [of fst] if_distrib [of face_marking] if_distrib [of leg_markings]
      split del: if_split cong: if_cong)
     auto

lemma leopard_pattern_console:
  "console (snd (leopard_pattern rnd p age g a b lw)) = console (snd lw)"
  by (simp add: leopard_pattern_def lp_het_pattern_def case_prod_beta Let_def Math_random_def
      selectWeightedRandom_console)

lemma leopard_stage_kept:
  assumes "leopard_stage rnd p age g lw = Inr lw'"
  shows "baseColor (fst lw') = baseColor (fst lw) \<and>
         isAllWhiteFromDominant (fst lw') = isAllWhiteFromDominant (fst lw) \<and>
         shade (fst lw') = shade (fst lw) \<and>
         face_marking (marks (fst lw')) = face_marking (marks (fst lw)) \<and>
         leg_markings (marks (fst lw')) = leg_markings (marks (fst lw)) \<and>
         console (snd lw') = console (snd lw)"
proof -
  from assms obtain a b where "lw' = leopard_pattern rnd p age g a b lw"
    by (auto simp: leopard_stage_def and_then_eq_Inr)
  then show ?thesis
    by (simp add: leopard_pattern_kept leopard_pattern_console)
qed

lemma gray_colour_kept:
  "baseColor (fst (gray_colour rnd p age lw)) = baseColor (fst lw)"
  "isAllWhiteFromDominant (fst (gray_colour rnd p age lw)) = isAllWhiteFromDominant (fst lw)"
  "shade (fst (gray_colour rnd p age lw)) = shade (fst lw)"
  "face_marking (marks (fst (gray_colour rnd p age lw))) = face_marking (marks (fst lw))"
  "leg_markings (marks (fst (gray_colour rnd p age lw))) = leg_markings (marks (fst lw))"
  "console (snd (gray_colour rnd p age lw)) = console (snd lw)"
  by (simp_all add: gray_colour_def case_prod_beta if_fields Let_def Math_random_def
      if_distrib [of fst] if_distrib [of face_marking] if_distrib [of leg_markings]
      split del: if_split cong: if_cong)

lemma gray_stage_kept:
  assumes "gray_stage rnd p age g lw = Inr lw'"
  shows "shade (fst lw') = shade (fst lw) \<and>
         face_marking (marks (fst lw')) = face_marking (marks (fst lw)) \<and>
         leg_markings (marks (fst lw')) = leg_markings (marks (fst lw)) \<and>
         console (snd lw') = console (snd lw)"
  using assms
  by (auto simp: gray_stage_def and_then_eq_Inr gray_colour_kept split: if_splits)





lemma shade_stage_sets_shade:
  "fst (shade_stage rnd p lw) = (fst lw)\<lparr>shade := shade (fst (shade_stage rnd p lw))\<rparr>"
  by (simp add: shade_stage_def case_prod_beta Let_def)

lemma shade_stage_kept:
  "baseColor (fst (shade_stage rnd p lw)) = baseColor (fst lw)"
  "isAllWhiteFromDominant (fst (shade_stage rnd p lw)) = isAllWhiteFromDominant (fst lw)"
  "marks (fst (shade_stage rnd p lw)) = marks (fst lw)"
  by (simp_all add: shade_stage_def case_prod_beta Let_def)

lemma shade_stage_some: "shade (fst (shade_stage rnd p lw)) \<noteq> None"
  by (simp add: shade_stage_def case_prod_beta Let_def)

lemma modifiers_frame:
  "frame l (pangare_stage g (flaxen_stage g (init_parts (sooty_stage g (apply_shade l)))))"
proof -
  have "frame l (init_parts (sooty_stage g (apply_shade l)))"
    by (rule frame_trans [OF frame_trans [OF frame_modifiers(1) frame_modifiers(2)]
          frame_modifiers(3)])
  then show ?thesis
    by (rule frame_trans [OF frame_trans [OF _ frame_modifiers(4)] frame_modifiers(5)])
qed

text \<open>The base colour and the white flag when the white step begins.\<close>

lemma before_white:
  assumes "base_stage g initial_locals = Inr l1"
    "mushroom_stage g l1 = Inr l2"
    "mushroom_pearl_stage g l2 = Inr l3"
    "cream_stage g l3 = Inr l4"
    "dun_stage g l4 = Inr l5"
    "champagne_stage g (l5, w) = Inr (l6, w6)"
    "silver_stage g l6 = Inr l7"
    "l8 = fst (shade_stage rnd p (pearl_stage g l7, w6))"
    "l9 = pangare_stage g (flaxen_stage g (init_parts (sooty_stage g (apply_shade l8))))"
    "roan_stage g l9 = Inr l10"
  shows "baseColor l10 = base_colour g \<and> \<not> isAllWhiteFromDominant l10 \<and>
         marks l10 = marks initial_locals \<and> shade l10 = shade l8 \<and> w6 = w"
proof -
  note b = base_stage_colour [OF assms(1)]
  note f = frame_stages(1) [OF assms(2)] frame_stages(2) [OF assms(3)]
    frame_stages(3) [OF assms(4)] frame_stages(4) [OF assms(5)]
    champagne_stage_frame [OF assms(6)] frame_stages(5) [OF assms(7)]
    frame_dilutions(5) [of l7 g] modifiers_frame [of l8 g] frame_stages(6) [OF assms(10)]
  show ?thesis
    using b f unfolding assms(8,9)
    by (simp add: frame_def shade_stage_kept initial_locals_def)
qed

subsection \<open>The colour of a lethal dominant white\<close>





subsection \<open>The colour of a gray\<close>





subsection \<open>Shade and markings\<close>

lemma draw_value_less_1: "draw_value r < 1"
  using draw_value [of r] by simp

lemma select_standard:
  "selectWeightedRandom rnd (Some [(''standard'', Some 1)]) w
   = (Some ''standard'', w\<lparr>draws := Suc (draws w)\<rparr>)"
  by (simp add: selectWeightedRandom_def valid_weight_def Math_random_def draw_value_less_1)

lemma shade_stage_standard:
  assumes "shade_bias profile = Some sb"
    and "map_of sb (phenotypeKeyForShade l) = Some [(''standard'', Some 1)]"
  shows "shade_stage rnd (Some profile) (l, w)
         = (l\<lparr>shade := Some ''standard''\<rparr>, w\<lparr>draws := Suc (draws w)\<rparr>)"
  using assms by (simp add: shade_stage_def select_standard truthy_def)

lemma shade_stage_no_profile:
  "shade_stage rnd None (l, w) = (l\<lparr>shade := Some ''standard''\<rparr>, w)"
  by (simp add: shade_stage_def truthy_def)

lemma finish_frame:
  "frame l (reorder_stage (dedupe_stage (dun_primitive_stage (rabicano_stage g l))))"
proof -
  have "frame l (dun_primitive_stage (rabicano_stage g l))"
    by (rule frame_trans [OF frame_modifiers(8) frame_modifiers(9)])
  then show ?thesis
    by (rule frame_trans [OF frame_trans [OF _ frame_modifiers(10)] frame_modifiers(11)])
qed

lemma markings_stage_shade: "shade (fst (markings_stage rnd p lw)) = shade (fst lw)"
  by (simp add: markings_stage_def case_prod_beta Let_def split: option.splits)

lemma markings_stage_no_profile: "markings_stage rnd None lw = lw"
  by (simp add: markings_stage_def case_prod_beta)

subsection \<open>The Gold Champagne scenario\<close>

lemma gold_champagne_steps:
  "base_stage gold_champagne_genotype initial_locals = Inr chestnut_locals"
  "mushroom_stage gold_champagne_genotype l = Inr l"
  "mushroom_pearl_stage gold_champagne_genotype l = Inr l"
  "cream_stage gold_champagne_genotype l = Inr l"
  "dun_stage gold_champagne_genotype l = Inr l"
  "champagne_stage gold_champagne_genotype lw = Inr (champagne_dilution False False False lw)"
  "silver_stage gold_champagne_genotype l = Inr l"
  "roan_stage gold_champagne_genotype l = Inr l"
  "white_stage gold_champagne_genotype l = Inr l"
  "patterns_stage gold_champagne_genotype l = Inr l"
  "leopard_stage rnd p age gold_champagne_genotype lw = Inr lw"
  "gray_stage rnd p age gold_champagne_genotype lw = Inr lw"
  by (simp_all add: gold_champagne_genotype_def chestnut_locals_def read_eval base_stage_def
      mushroom_stage_def mushroom_pearl_stage_def cream_stage_def dun_stage_def
      champagne_stage_def silver_stage_def roan_stage_def white_stage_def dominant_white_def
      patterns_stage_def spotting_patterns_def leopard_stage_def leopard_pattern_def
      gray_stage_def case_prod_beta)

lemma gold_champagne_dilutions:
  "champagne_dilution False False False (chestnut_locals, w)
   = (chestnut_locals\<lparr>currentDisplayColor := ''Gold Champagne'',
                        phenotypeKeyForShade := ''Gold Champagne''\<rparr>, w)"
  by (simp add: champagne_dilution_def champagne_by_base_def set_colour_def chestnut_locals_def
      truthy_def)

lemma gold_champagne_pearl:
  "pearl_stage gold_champagne_genotype
     (chestnut_locals\<lparr>currentDisplayColor := ''Gold Champagne'',
                      phenotypeKeyForShade := ''Gold Champagne''\<rparr>)
   = chestnut_locals\<lparr>currentDisplayColor := ''Gold Champagne'',
                     phenotypeKeyForShade := ''Gold Champagne''\<rparr>"
  by (simp add: gold_champagne_genotype_def chestnut_locals_def initial_locals_def prop_of_def
      pearl_stage_def applyPearlDilution_def pearl_cleanup_def str_eval)

lemma gold_champagne_tail:
  "assemble (reorder_stage (dedupe_stage (dun_primitive_stage
     (rabicano_stage gold_champagne_genotype
        (pangare_stage gold_champagne_genotype (flaxen_stage gold_champagne_genotype
           (init_parts (sooty_stage gold_champagne_genotype (apply_shade
              (chestnut_locals\<lparr>currentDisplayColor := ''Gold Champagne'',
                               phenotypeKeyForShade := ''Gold Champagne'',
                               shade := Some ''standard''\<rparr>)))))))))) = ''Gold Champagne''"
  by (simp add: gold_champagne_genotype_def chestnut_locals_def initial_locals_def prop_of_def
      pattern_eval str_eval)

lemma tail_shade:
  "shade (reorder_stage (dedupe_stage (dun_primitive_stage (rabicano_stage g
     (pangare_stage g (flaxen_stage g (init_parts (sooty_stage g (apply_shade l))))))))) = shade l"
  using finish_frame [of "pangare_stage g (flaxen_stage g (init_parts (sooty_stage g
          (apply_shade l))))" g] modifiers_frame [of l g]
  by (simp add: frame_def)

text \<open>
  Claim C4. For the genotype \<^verbatim>\<open>{E_Extension: 'e/e', A_Agouti: 'a/a', Cr_Cream: 'n/n',
  D_Dun: 'n/n', CH_Champagne: 'Ch/n'}\<close> and every breed profile whose
  \<^verbatim>\<open>shade_bias['Gold Champagne']\<close> is \<^verbatim>\<open>{standard: 1}\<close>, for every age, random source and
  state, \<^verbatim>\<open>determinePhenotype\<close> returns, with \<^verbatim>\<open>final_display_color\<close> equal to
  \<^verbatim>\<open>'Gold Champagne'\<close> and the shade \<^verbatim>\<open>'standard'\<close>.
\<close>

theorem determinePhenotype_gold_champagne:
  assumes "shade_bias profile = Some sb"
    and "map_of sb ''Gold Champagne'' = Some [(''standard'', Some 1)]"
  shows "\<exists>ph w'. determinePhenotype rnd (Some gold_champagne_genotype) (Some profile) ageInYears w
               = Inr (ph, w') \<and>
           final_display_color ph = ''Gold Champagne'' \<and> determined_shade ph = ''standard''"
  using assms
  by (simp add: determinePhenotype_def resolve_def Let_def case_prod_beta gold_champagne_steps
      gold_champagne_dilutions gold_champagne_pearl shade_stage_standard gold_champagne_tail
      markings_stage_shade tail_shade)

theorem determinePhenotype_gold_champagne_witness:
  "shade_bias
     \<lparr>allele_weights = None, disallowed_combinations = None, allowed_alleles = None,
      boolean_modifiers_prevalence = None,
      shade_bias = Some [(''Gold Champagne'', [(''standard'', Some 1)]),
                         (''Amber Champagne'', [(''standard'', Some 1)])],
      marking_bias = None, advanced_markings_bias = None\<rparr>
     = Some [(''Gold Champagne'', [(''standard'', Some 1)]),
             (''Amber Champagne'', [(''standard'', Some 1)])] \<and>
   map_of [(''Gold Champagne'', [(''standard'', Some (1 :: real))]),
           (''Amber Champagne'', [(''standard'', Some 1)])] ''Gold Champagne''
     = Some [(''standard'', Some 1)] \<and>
   (\<exists>ph w'. determinePhenotype (\<lambda>n. draw_of (1 / 2)) (Some gold_champagne_genotype)
       (Some \<lparr>allele_weights = None, disallowed_combinations = None, allowed_alleles = None,
              boolean_modifiers_prevalence = None,
              shade_bias = Some [(''Gold Champagne'', [(''standard'', Some 1)]),
                                 (''Amber Champagne'', [(''standard'', Some 1)])],
              marking_bias = None, advanced_markings_bias = None\<rparr>)
       0 \<lparr>draws = 0, console = []\<rparr> = Inr (ph, w') \<and>
     final_display_color ph = ''Gold Champagne'' \<and> determined_shade ph = ''standard'')"
  using determinePhenotype_gold_champagne
    [of "\<lparr>allele_weights = None, disallowed_combinations = None, allowed_alleles = None,
          boolean_modifiers_prevalence = None,
          shade_bias = Some [(''Gold Champagne'', [(''standard'', Some 1)]),
                             (''Amber Champagne'', [(''standard'', Some 1)])],
          marking_bias = None, advanced_markings_bias = None\<rparr>"
        "[(''Gold Champagne'', [(''standard'', Some 1)]),
          (''Amber Champagne'', [(''standard'', Some 1)])]"
        "\<lambda>n. draw_of (1 / 2)" 0 "\<lparr>draws = 0, console = []\<rparr>"]
  by simp

subsection \<open>The Mushroom Pearl scenario\<close>

lemma mushroom_pearl_first_steps:
  "base_stage mushroom_pearl_genotype initial_locals = Inr chestnut_locals"
  "mushroom_stage mushroom_pearl_genotype chestnut_locals
   = Inr (chestnut_locals\<lparr>currentDisplayColor := ''Mushroom Chestnut'',
                          phenotypeKeyForShade := ''Mushroom''\<rparr>)"
  "mushroom_pearl_stage mushroom_pearl_genotype
     (chestnut_locals\<lparr>currentDisplayColor := ''Mushroom Chestnut'',
                      phenotypeKeyForShade := ''Mushroom''\<rparr>)
   = Inr mushroom_pearl_locals"
  by (simp_all add: mushroom_pearl_genotype_def mushroom_pearl_locals_def chestnut_locals_def
      read_eval base_stage_def mushroom_stage_def mushroom_pearl_stage_def)

lemma mushroom_pearl_steps:
  "cream_stage mushroom_pearl_genotype l = Inr l"
  "dun_stage mushroom_pearl_genotype l = Inr l"
  "champagne_stage mushroom_pearl_genotype lw = Inr lw"
  "silver_stage mushroom_pearl_genotype l = Inr l"
  "roan_stage mushroom_pearl_genotype l = Inr l"
  "white_stage mushroom_pearl_genotype l = Inr l"
  "patterns_stage mushroom_pearl_genotype l = Inr l"
  "leopard_stage rnd p age mushroom_pearl_genotype lw = Inr lw"
  "gray_stage rnd p age mushroom_pearl_genotype lw = Inr lw"
  by (simp_all add: mushroom_pearl_genotype_def read_eval cream_stage_def dun_stage_def
      champagne_stage_def silver_stage_def roan_stage_def white_stage_def dominant_white_def
      patterns_stage_def spotting_patterns_def leopard_stage_def leopard_pattern_def
      gray_stage_def case_prod_beta)

lemma pearl_stage_skipped:
  "mushroomPlusHomozygousPearlNoCreamHandled l \<Longrightarrow> pearl_stage g l = l"
  by (simp add: pearl_stage_def)

lemma mushroom_pearl_handled:
  "mushroomPlusHomozygousPearlNoCreamHandled mushroom_pearl_locals"
  "currentDisplayColor mushroom_pearl_locals = ''Mushroom Pearl''"
  "phenotypeKeyForShade mushroom_pearl_locals = ''Mushroom Pearl''"
  by (simp_all add: mushroom_pearl_locals_def)

lemma mushroom_pearl_tail:
  "assemble (reorder_stage (dedupe_stage (dun_primitive_stage
     (rabicano_stage mushroom_pearl_genotype
        (pangare_stage mushroom_pearl_genotype (flaxen_stage mushroom_pearl_genotype
           (init_parts (sooty_stage mushroom_pearl_genotype (apply_shade
              (mushroom_pearl_locals\<lparr>shade := Some ''standard''\<rparr>)))))))))) = ''Mushroom Pearl''"
  by (simp add: mushroom_pearl_genotype_def mushroom_pearl_locals_def chestnut_locals_def
      initial_locals_def prop_of_def pattern_eval str_eval)

text \<open>
  Claim C5. For the genotype \<^verbatim>\<open>{E_Extension: 'e/e', MFSD12_Mushroom: 'Mu/n', PRL_Pearl:
  'prl/prl', Cr_Cream: 'n/n', A_Agouti: 'a/a', CH_Champagne: 'n/n', D_Dun: 'n/n'}\<close>, every
  profile (or none), age, random source and state: \<^verbatim>\<open>determinePhenotype\<close> returns, and
  when the shade it determined is \<^verbatim>\<open>'standard'\<close> its \<^verbatim>\<open>final_display_color\<close> is
  \<^verbatim>\<open>'Mushroom Pearl'\<close>. On the way the first step finds a chestnut base, the mushroom step
  produces \<^verbatim>\<open>'Mushroom Chestnut'\<close>, the special case for mushroom with homozygous pearl
  and no cream rewrites it to \<^verbatim>\<open>'Mushroom Pearl'\<close> and sets its flag, the cream, dun,
  champagne and silver steps change nothing, and the pearl step then leaves the
  variables as they are (\<^verbatim>\<open>applyPearlDilution\<close> is not called).
\<close>

theorem determinePhenotype_mushroom_pearl:
  "(\<exists>ph w'. determinePhenotype rnd (Some mushroom_pearl_genotype) breedGeneticProfile ageInYears w
       = Inr (ph, w') \<and>
     (determined_shade ph = ''standard'' \<longrightarrow> final_display_color ph = ''Mushroom Pearl'')) \<and>
   base_stage mushroom_pearl_genotype initial_locals = Inr chestnut_locals \<and>
   mushroom_stage mushroom_pearl_genotype chestnut_locals
     = Inr (chestnut_locals\<lparr>currentDisplayColor := ''Mushroom Chestnut'',
                            phenotypeKeyForShade := ''Mushroom''\<rparr>) \<and>
   mushroom_pearl_stage mushroom_pearl_genotype
     (chestnut_locals\<lparr>currentDisplayColor := ''Mushroom Chestnut'',
                      phenotypeKeyForShade := ''Mushroom''\<rparr>)
     = Inr mushroom_pearl_locals \<and>
   currentDisplayColor mushroom_pearl_locals = ''Mushroom Pearl'' \<and>
   mushroomPlusHomozygousPearlNoCreamHandled mushroom_pearl_locals \<and>
   cream_stage mushroom_pearl_genotype mushroom_pearl_locals = Inr mushroom_pearl_locals \<and>
   dun_stage mushroom_pearl_genotype mushroom_pearl_locals = Inr mushroom_pearl_locals \<and>
   champagne_stage mushroom_pearl_genotype (mushroom_pearl_locals, w)
     = Inr (mushroom_pearl_locals, w) \<and>
   silver_stage mushroom_pearl_genotype mushroom_pearl_locals = Inr mushroom_pearl_locals \<and>
   pearl_stage mushroom_pearl_genotype mushroom_pearl_locals = mushroom_pearl_locals"
proof (intro conjI)
  let ?g = mushroom_pearl_genotype
  let ?s = "shade_stage rnd breedGeneticProfile (mushroom_pearl_locals, w)"
  have pre: "pearl_stage ?g mushroom_pearl_locals = mushroom_pearl_locals"
    by (simp add: pearl_stage_skipped mushroom_pearl_handled)
  have form: "fst ?s = mushroom_pearl_locals\<lparr>shade := shade (fst ?s)\<rparr>"
    using shade_stage_sets_shade [of rnd breedGeneticProfile "(mushroom_pearl_locals, w)"]
    by simp
  obtain x where x: "shade (fst ?s) = Some x"
    using shade_stage_some [of rnd breedGeneticProfile "(mushroom_pearl_locals, w)"] by auto
  obtain ph w' where run: "resolve rnd ?g breedGeneticProfile ageInYears w = Inr (ph, w')"
    and sh: "determined_shade ph = x"
    and col: "final_display_color ph
        = assemble (reorder_stage (dedupe_stage (dun_primitive_stage (rabicano_stage ?g
            (pangare_stage ?g (flaxen_stage ?g (init_parts (sooty_stage ?g
               (apply_shade (fst ?s))))))))))"
    by (simp add: resolve_def Let_def case_prod_beta mushroom_pearl_first_steps
        mushroom_pearl_steps pre markings_stage_shade tail_shade x)
  have "final_display_color ph = ''Mushroom Pearl''" if "determined_shade ph = ''standard''"
  proof -
    from that sh have "x = ''standard''" by simp
    with form x have "fst ?s = mushroom_pearl_locals\<lparr>shade := Some ''standard''\<rparr>"
      by simp
    with col show ?thesis
      by (simp add: mushroom_pearl_tail)
  qed
  with run show "\<exists>ph w'. determinePhenotype rnd (Some ?g) breedGeneticProfile ageInYears w
       = Inr (ph, w') \<and>
     (determined_shade ph = ''standard'' \<longrightarrow> final_display_color ph = ''Mushroom Pearl'')"
    by (simp add: determinePhenotype_def)
  show "pearl_stage ?g mushroom_pearl_locals = mushroom_pearl_locals"
    by (rule pre)
qed (simp_all add: mushroom_pearl_first_steps mushroom_pearl_steps mushroom_pearl_handled)

theorem determinePhenotype_mushroom_pearl_witness:
  "\<exists>ph w'. determinePhenotype (\<lambda>n. draw_of (1 / 2)) (Some mushroom_pearl_genotype)
       (Some \<lparr>allele_weights = None, disallowed_combinations = None, allowed_alleles = None,
              boolean_modifiers_prevalence = None,
              shade_bias = Some [(''Mushroom Pearl'', [(''standard'', Some 1)])],
              marking_bias = None, advanced_markings_bias = None\<rparr>)
       0 \<lparr>draws = 0, console = []\<rparr> = Inr (ph, w') \<and>
     determined_shade ph = ''standard'' \<and> final_display_color ph = ''Mushroom Pearl''"
proof -
  let ?p = "\<lparr>allele_weights = None, disallowed_combinations = None, allowed_alleles = None,
              boolean_modifiers_prevalence = None,
              shade_bias = Some [(''Mushroom Pearl'', [(''standard'', Some 1)])],
              marking_bias = None, advanced_markings_bias = None\<rparr>"
  let ?w = "\<lparr>draws = 0, console = []\<rparr>"
  let ?g = mushroom_pearl_genotype
  from determinePhenotype_mushroom_pearl [of "\<lambda>n. draw_of (1 / 2)" "Some ?p" 0 ?w]
  obtain ph w' where run: "determinePhenotype (\<lambda>n. draw_of (1 / 2)) (Some ?g) (Some ?p) 0 ?w
       = Inr (ph, w')"
    and std: "determined_shade ph = ''standard'' \<longrightarrow> final_display_color ph = ''Mushroom Pearl''"
    by blast
  have pre: "pearl_stage ?g mushroom_pearl_locals = mushroom_pearl_locals"
    by (simp add: pearl_stage_skipped mushroom_pearl_handled)
  have "\<exists>ph' w''. resolve (\<lambda>n. draw_of (1 / 2)) ?g (Some ?p) 0 ?w = Inr (ph', w'') \<and>
          determined_shade ph' = ''standard''"
    by (simp add: resolve_def Let_def case_prod_beta mushroom_pearl_first_steps
        mushroom_pearl_steps pre markings_stage_shade tail_shade shade_stage_standard
        mushroom_pearl_handled)
  with run have "determined_shade ph = ''standard''"
    by (auto simp: determinePhenotype_def)
  with run std show ?thesis by blast
qed

subsection \<open>Missing arguments\<close>

lemma resolve_no_profile:
  assumes r: "resolve rnd g None age w = Inr (ph, w')"
  shows "determined_shade ph = ''standard'' \<and>
   face_marking (phenotypic_markings ph) = ''none'' \<and>
   leg_markings (phenotypic_markings ph)
     = [(''LF'', ''none''), (''RF'', ''none''), (''LH'', ''none''), (''RH'', ''none'')] \<and>
   console w' = console w"
  using r
proof (rule resolveE)
  fix l1 l2 l3 l4 l5 l6 w6 l7 l8 w8 l9 l10 l11 l12 l13 w13 l14 w14 l15 l16
  assume s: "base_stage g initial_locals = Inr l1"
    "mushroom_stage g l1 = Inr l2"
    "mushroom_pearl_stage g l2 = Inr l3"
    "cream_stage g l3 = Inr l4"
    "dun_stage g l4 = Inr l5"
    "champagne_stage g (l5, w) = Inr (l6, w6)"
    "silver_stage g l6 = Inr l7"
    "l8 = fst (shade_stage rnd None (pearl_stage g l7, w6))"
    "l9 = pangare_stage g (flaxen_stage g (init_parts (sooty_stage g (apply_shade l8))))"
    "roan_stage g l9 = Inr l10"
    and w8: "w8 = snd (shade_stage rnd None (pearl_stage g l7, w6))"
    and wh: "white_stage g l10 = Inr l11"
    and pa: "patterns_stage g l11 = Inr l12"
    and le: "leopard_stage rnd None age g (l12, w8) = Inr (l13, w13)"
    and gr: "gray_stage rnd None age g (l13, w13) = Inr (l14, w14)"
    and l15: "l15 = reorder_stage (dedupe_stage (dun_primitive_stage (rabicano_stage g l14)))"
    and l16: "l16 = fst (markings_stage rnd None (l15, w14))"
    and w': "w' = snd (markings_stage rnd None (l15, w14))"
    and ph: "ph = \<lparr>final_display_color = assemble l15, phenotypic_markings = marks l16,
                   determined_shade = the (shade l16)\<rparr>"
  have l8: "shade l8 = Some ''standard''" and w8': "w8 = w6"
    unfolding s(8) w8 by (simp_all add: shade_stage_no_profile)
  have "shade l14 = Some ''standard'' \<and>
        face_marking (marks l14) = ''none'' \<and>
        leg_markings (marks l14)
          = [(''LF'', ''none''), (''RF'', ''none''), (''LH'', ''none''), (''RH'', ''none'')] \<and>
        console w14 = console w"
    using before_white [OF s] white_stage_kept [OF wh] frame_stages(7) [OF pa]
      leopard_stage_kept [OF le] gray_stage_kept [OF gr] l8 w8'
    by (simp add: frame_def initial_locals_def)
  with finish_frame [of l14 g] show ?thesis
    unfolding ph l16 w' l15 by (simp add: markings_stage_no_profile frame_def)
qed

lemma empty_genotype_steps:
  "base_stage empty_genotype l
   = Inr (l\<lparr>baseColor := ''Black'', phenotypeKeyForShade := ''Black''\<rparr>)"
  "mushroom_stage empty_genotype l = Inr l"
  "mushroom_pearl_stage empty_genotype l = Inr l"
  "cream_stage empty_genotype l = Inr l"
  "dun_stage empty_genotype l = Inr l"
  "champagne_stage empty_genotype lw = Inr lw"
  "silver_stage empty_genotype l = Inr l"
  "roan_stage empty_genotype l = Inr l"
  "white_stage empty_genotype l = Inr l"
  "patterns_stage empty_genotype l = Inr l"
  "leopard_stage rnd p age empty_genotype lw = Inr lw"
  "gray_stage rnd p age empty_genotype lw = Inr lw"
  by (simp_all add: empty_genotype_def read_eval base_stage_def mushroom_stage_def
      mushroom_pearl_stage_def cream_stage_def dun_stage_def champagne_stage_def
      silver_stage_def roan_stage_def white_stage_def dominant_white_def patterns_stage_def
      spotting_patterns_def leopard_stage_def leopard_pattern_def gray_stage_def
      case_prod_beta)

lemma empty_genotype_pearl:
  "pearl_stage empty_genotype
     (initial_locals\<lparr>baseColor := ''Black'', phenotypeKeyForShade := ''Black''\<rparr>)
   = initial_locals\<lparr>baseColor := ''Black'', phenotypeKeyForShade := ''Black'',
                    currentDisplayColor := ''Black''\<rparr>"
  by (simp add: empty_genotype_def initial_locals_def prop_of_def pearl_stage_def
      applyPearlDilution_def pearl_cleanup_def str_eval)

lemma empty_genotype_modifiers:
  "pangare_stage empty_genotype (flaxen_stage empty_genotype
     (init_parts (sooty_stage empty_genotype (apply_shade
        (initial_locals\<lparr>baseColor := ''Black'', phenotypeKeyForShade := ''Black'',
                        currentDisplayColor := ''Black'', shade := Some ''standard''\<rparr>)))))
   = initial_locals\<lparr>baseColor := ''Black'', phenotypeKeyForShade := ''Black'',
                    currentDisplayColor := ''Black'', shade := Some ''standard'',
                    displayColorParts := [''Black'']\<rparr>"
  by (simp add: empty_genotype_def initial_locals_def prop_of_def pattern_eval str_eval)

lemma empty_genotype_assembly:
  "reorder_stage (dedupe_stage (dun_primitive_stage (rabicano_stage empty_genotype
     (initial_locals\<lparr>baseColor := ''Black'', phenotypeKeyForShade := ''Black'',
                     currentDisplayColor := ''Black'', shade := Some ''standard'',
                     displayColorParts := [''Black'']\<rparr>))))
   = initial_locals\<lparr>baseColor := ''Black'', phenotypeKeyForShade := ''Black'',
                    currentDisplayColor := ''Black'', shade := Some ''standard'',
                    displayColorParts := [''Black'']\<rparr>"
  by (simp add: empty_genotype_def initial_locals_def prop_of_def pattern_eval str_eval)

text \<open>
  Claim C1, as the specification states it: each of the three entry points, called with
  a missing top-level argument, returns an empty or default result, signals a
  diagnostic and never throws. It fails for \<^verbatim>\<open>determinePhenotype\<close>: with a missing
  genotype the first read of a locus throws a \<^verbatim>\<open>TypeError\<close>, and with a missing breed
  profile (here for the empty genotype) the call writes nothing to \<^verbatim>\<open>console.error\<close> or
  \<^verbatim>\<open>console.warn\<close>.
\<close>

theorem determinePhenotype_missing_argument_counterexample:
  "determinePhenotype (\<lambda>n. draw_of 0) None None 0 \<lparr>draws = 0, console = []\<rparr> = Inl TypeError \<and>
   determinePhenotype (\<lambda>n. draw_of 0) (Some empty_genotype) None 0 \<lparr>draws = 0, console = []\<rparr>
     = Inr (\<lparr>final_display_color = ''Black'',
             phenotypic_markings =
               \<lparr>face_marking = ''none'',
                leg_markings = [(''LF'', ''none''), (''RF'', ''none''), (''LH'', ''none''),
                                (''RH'', ''none'')],
                mottling = False, striping = False, bloody_shoulder = False\<rparr>,
             determined_shade = ''standard''\<rparr>,
            \<lparr>draws = 0, console = []\<rparr>)"
  by (simp add: determinePhenotype_def resolve_def Let_def case_prod_beta empty_genotype_steps
      empty_genotype_pearl shade_stage_no_profile empty_genotype_modifiers
      empty_genotype_assembly markings_stage_no_profile)
     (simp add: initial_locals_def assemble_def str_eval)

text \<open>
  Claim C1, amended: \<^verbatim>\<open>generateStoreHorseGenetics\<close> with a missing profile, and
  \<^verbatim>\<open>calculateFoalGenetics\<close> with a missing sire, dam or profile, return the empty
  genotype and write one \<^verbatim>\<open>console.error\<close>, and do not throw. \<^verbatim>\<open>determinePhenotype\<close> with
  a genotype and a missing breed profile, whenever it returns, gives a phenotype with
  the shade \<^verbatim>\<open>'standard'\<close> and the face and leg markings \<^verbatim>\<open>'none'\<close>, and writes no error
  or warning; it returns whenever none of the loci on which it calls a string method
  holds \<^verbatim>\<open>true\<close>.
\<close>

theorem missing_arguments_degrade:
  "generateStoreHorseGenetics rnd None w = (empty_genotype, signal Error_ProfileMissing w) \<and>
   ((sire = None \<or> dam = None \<or> profile = None) \<longrightarrow>
      calculateFoalGenetics rnd sire dam profile w
        = (empty_genotype, signal Error_MissingParentOrProfile w)) \<and>
   (determinePhenotype rnd (Some g) None ageInYears w = Inr (ph, w') \<longrightarrow>
      determined_shade ph = ''standard'' \<and>
      face_marking (phenotypic_markings ph) = ''none'' \<and>
      leg_markings (phenotypic_markings ph)
        = [(''LF'', ''none''), (''RF'', ''none''), (''LH'', ''none''), (''RH'', ''none'')] \<and>
      console w' = console w) \<and>
   (no_locus_true g \<longrightarrow>
      (\<exists>ph w'. determinePhenotype rnd (Some g) None ageInYears w = Inr (ph, w') \<and>
         determined_shade ph = ''standard'' \<and>
         face_marking (phenotypic_markings ph) = ''none'' \<and>
         leg_markings (phenotypic_markings ph)
           = [(''LF'', ''none''), (''RF'', ''none''), (''LH'', ''none''), (''RH'', ''none'')] \<and>
         console w' = console w))"
proof (intro conjI impI)
  show "generateStoreHorseGenetics rnd None w = (empty_genotype, signal Error_ProfileMissing w)"
    by (simp add: generateStoreHorseGenetics_def)
next
  assume "sire = None \<or> dam = None \<or> profile = None"
  then show "calculateFoalGenetics rnd sire dam profile w
        = (empty_genotype, signal Error_MissingParentOrProfile w)"
    by (auto simp: calculateFoalGenetics_def split: option.splits)
next
  assume r: "determinePhenotype rnd (Some g) None ageInYears w = Inr (ph, w')"
  then have "resolve rnd g None ageInYears w = Inr (ph, w')"
    by (simp add: determinePhenotype_def)
  note props = resolve_no_profile [OF this]
  from props show "determined_shade ph = ''standard''" by simp
  from props show "face_marking (phenotypic_markings ph) = ''none''" by simp
  from props show "leg_markings (phenotypic_markings ph)
        = [(''LF'', ''none''), (''RF'', ''none''), (''LH'', ''none''), (''RH'', ''none'')]" by simp
  from props show "console w' = console w" by simp
next
  assume "no_locus_true g"
  then obtain ph w' where r: "resolve rnd g None ageInYears w = Inr (ph, w')"
    using resolve_returns by blast
  with resolve_no_profile [OF r] show
    "\<exists>ph w'. determinePhenotype rnd (Some g) None ageInYears w = Inr (ph, w') \<and>
       determined_shade ph = ''standard'' \<and>
       face_marking (phenotypic_markings ph) = ''none'' \<and>
       leg_markings (phenotypic_markings ph)
         = [(''LF'', ''none''), (''RF'', ''none''), (''LH'', ''none''), (''RH'', ''none'')] \<and>
       console w' = console w"
    by (simp add: determinePhenotype_def)
qed

theorem missing_arguments_degrade_witness:
  "generateStoreHorseGenetics (\<lambda>n. draw_of 0) None \<lparr>draws = 0, console = []\<rparr>
     = (empty_genotype, \<lparr>draws = 0, console = [Error_ProfileMissing]\<rparr>) \<and>
   calculateFoalGenetics (\<lambda>n. draw_of 0) None (Some gold_champagne_genotype) None
       \<lparr>draws = 0, console = []\<rparr>
     = (empty_genotype, \<lparr>draws = 0, console = [Error_MissingParentOrProfile]\<rparr>) \<and>
   no_locus_true gold_champagne_genotype \<and>
   (\<exists>ph w'. determinePhenotype (\<lambda>n. draw_of 0) (Some gold_champagne_genotype) None 0
        \<lparr>draws = 0, console = []\<rparr> = Inr (ph, w') \<and>
      determined_shade ph = ''standard'' \<and>
      face_marking (phenotypic_markings ph) = ''none'' \<and>
      leg_markings (phenotypic_markings ph)
        = [(''LF'', ''none''), (''RF'', ''none''), (''LH'', ''none''), (''RH'', ''none'')] \<and>
      console w' = [])"
  using missing_arguments_degrade
    [of "\<lambda>n. draw_of 0" "\<lparr>draws = 0, console = []\<rparr>" None "Some gold_champagne_genotype" None
        gold_champagne_genotype 0]
  by (simp add: signal_def no_locus_true_def method_loci_def prop_of_def
      gold_champagne_genotype_def)

end
